theory Spec2Isabelle
  imports Complex_Main
begin

section \<open>Forward automatic differentiation: the eager class \<open>AD<N>\<close> and the expression templates\<close>

text \<open>
  The development embeds \<^verbatim>\<open>diff.h\<close> (the eager dual number \<^verbatim>\<open>AD<N>\<close> and its
  operators) and \<^verbatim>\<open>expr.h\<close> (the lazy expression nodes).

  Conventions of the embedding.
  \<^item> A \<^verbatim>\<open>double\<close> is a \<open>real\<close>: rounding and signed zeros are not modelled, and the four
    arithmetic operations are exact, so they do not overflow. An operation whose result
    is no real number (division by zero; \<^verbatim>\<open>std::log\<close> and \<^verbatim>\<open>std::pow\<close> outside their
    domain; \<^verbatim>\<open>std::exp\<close> and \<^verbatim>\<open>std::pow\<close> beyond the range of a \<^verbatim>\<open>double\<close>; there IEEE
    arithmetic produces a NaN or an infinity) makes the evaluation end with the outcome
    \<open>NonReal\<close>; the special value is not followed any further.
  \<^item> Where a property depends on the range of a \<^verbatim>\<open>double\<close> in the arithmetic operations
    themselves, the operations concerned are given a second time over \<open>xdouble\<close>, the
    real numbers within the range of a \<^verbatim>\<open>double\<close> together with the infinities and NaN.
  \<^item> The template parameter \<open>N\<close> is an explicit argument. The member \<^verbatim>\<open>double dx_[N]\<close> is
    a list; an object of type \<^verbatim>\<open>AD<N>\<close> has exactly \<open>N\<close> entries (\<open>wf_AD\<close>).
  \<^item> An index is an \<^verbatim>\<open>unsigned int\<close>, hence a \<open>nat\<close>: a negative index is excluded by the
    type. No loop counter of the source can wrap around.
  \<^item> An array access outside \<^verbatim>\<open>dx_[N]\<close> and leaving a value-returning function without
    a \<^verbatim>\<open>return\<close> are undefined behaviour in C++; the source contains no \<^verbatim>\<open>throw\<close>, no
    assertion and no error return.
\<close>

subsection \<open>Outcomes of a call\<close>

datatype error = IndexOutOfRange | DimensionMismatch | DomainError

text \<open>
  A call returns a value, reports an error, runs into undefined behaviour, or leaves the
  real numbers. No function of the source reports an error, so no definition below
  produces \<open>Reported\<close>.
\<close>

datatype 'a outcome = Returns 'a | Reported error | Undefined | NonReal

fun reports_error :: "'a outcome \<Rightarrow> bool" where
  "reports_error (Reported e) = True"
| "reports_error (Returns v) = False"
| "reports_error Undefined = False"
| "reports_error NonReal = False"

fun bind_oc :: "'a outcome \<Rightarrow> ('a \<Rightarrow> 'b outcome) \<Rightarrow> 'b outcome" where
  "bind_oc (Returns v) f = f v"
| "bind_oc (Reported e) f = Reported e"
| "bind_oc Undefined f = Undefined"
| "bind_oc NonReal f = NonReal"

definition map_oc :: "('a \<Rightarrow> 'b) \<Rightarrow> 'a outcome \<Rightarrow> 'b outcome" where
  "map_oc f m = bind_oc m (\<lambda>v. Returns (f v))"

text \<open>\<^verbatim>\<open>for (unsigned i = 0; i < n; ++i) body\<close> with a body that may fail: the bodies
  for \<open>0, \<dots>, n - 1\<close> run in this order, and the first failure ends the loop.\<close>

primrec for_oc :: "nat \<Rightarrow> (nat \<Rightarrow> 's \<Rightarrow> 's outcome) \<Rightarrow> 's \<Rightarrow> 's outcome" where
  "for_oc 0 body s = Returns s"
| "for_oc (Suc n) body s = bind_oc (for_oc n body s) (body n)"

subsection \<open>The class \<open>AD<N>\<close> (diff.h)\<close>

type_synonym double = real

text \<open>The members \<^verbatim>\<open>x_\<close> and \<^verbatim>\<open>dx_\<close> (an identifier cannot end with an underscore here).\<close>

record AD =
  x_fld :: double
  dx_fld :: "double list"

definition wf_AD :: "nat \<Rightarrow> AD \<Rightarrow> bool" where
  "wf_AD N a = (length (dx_fld a) = N)"

text \<open>\<^verbatim>\<open>for (i = 0; i < N; ++i) dx_[i] = rhs\<close>, where \<open>rhs\<close> may read the current array.
  The loop guard keeps every access inside the array.\<close>

definition for_dx :: "nat \<Rightarrow> (nat \<Rightarrow> double list \<Rightarrow> double) \<Rightarrow> double list \<Rightarrow> double list" where
  "for_dx N rhs ds = fold (\<lambda>i ds. ds[i := rhs i ds]) [0..<N] ds"

text \<open>\<^verbatim>\<open>void zero()\<close>\<close>

definition AD_zero :: "nat \<Rightarrow> AD \<Rightarrow> AD" where
  "AD_zero N a = a\<lparr>dx_fld := for_dx N (\<lambda>i ds. 0) (dx_fld a)\<rparr>"

text \<open>\<^verbatim>\<open>void copy(AD<N> const& other)\<close>\<close>

definition AD_copy :: "nat \<Rightarrow> AD \<Rightarrow> AD \<Rightarrow> AD" where
  "AD_copy N a other =
     (let a1 = a\<lparr>x_fld := x_fld other\<rparr>
      in a1\<lparr>dx_fld := for_dx N (\<lambda>i ds. dx_fld other ! i) (dx_fld a1)\<rparr>)"

text \<open>The storage of an object before its constructor body runs: \<open>N\<close> slots of
  indeterminate content.\<close>

definition uninitialised :: "nat \<Rightarrow> AD" where
  "uninitialised N = \<lparr>x_fld = undefined, dx_fld = replicate N undefined\<rparr>"

text \<open>\<^verbatim>\<open>AD():x_(0.) {zero();}\<close>\<close>

definition AD_default :: "nat \<Rightarrow> AD" where
  "AD_default N = AD_zero N ((uninitialised N)\<lparr>x_fld := 0\<rparr>)"

text \<open>\<^verbatim>\<open>AD(double x):x_(x) {zero();}\<close>\<close>

definition AD_double :: "nat \<Rightarrow> double \<Rightarrow> AD" where
  "AD_double N x = AD_zero N ((uninitialised N)\<lparr>x_fld := x\<rparr>)"

text \<open>\<^verbatim>\<open>unsigned int size() const {return N;}\<close>\<close>

definition AD_size :: "nat \<Rightarrow> AD \<Rightarrow> nat" where
  "AD_size N a = N"

text \<open>\<^verbatim>\<open>void diff(unsigned int i)\<close>: \<^verbatim>\<open>zero(); dx_[i] = 1.;\<close> with no check of \<open>i\<close>.\<close>

definition AD_diff :: "nat \<Rightarrow> AD \<Rightarrow> nat \<Rightarrow> AD outcome" where
  "AD_diff N a i =
     (let a1 = AD_zero N a
      in if i < N then Returns (a1\<lparr>dx_fld := (dx_fld a1)[i := 1]\<rparr>) else Undefined)"

text \<open>\<^verbatim>\<open>val()\<close>, read and written through the returned reference.\<close>

definition AD_val :: "AD \<Rightarrow> double" where
  "AD_val a = x_fld a"

definition AD_set_val :: "AD \<Rightarrow> double \<Rightarrow> AD" where
  "AD_set_val a v = a\<lparr>x_fld := v\<rparr>"

text \<open>\<^verbatim>\<open>dx(unsigned int i) {return dx_[i];}\<close>, read and written through the returned
  reference; there is no check of \<open>i\<close>.\<close>

definition AD_dx :: "nat \<Rightarrow> AD \<Rightarrow> nat \<Rightarrow> double outcome" where
  "AD_dx N a i = (if i < N then Returns (dx_fld a ! i) else Undefined)"

definition AD_set_dx :: "nat \<Rightarrow> AD \<Rightarrow> nat \<Rightarrow> double \<Rightarrow> AD outcome" where
  "AD_set_dx N a i d = (if i < N then Returns (a\<lparr>dx_fld := (dx_fld a)[i := d]\<rparr>) else Undefined)"

text \<open>
  The assignment operators change the receiver and return a reference to it. The model
  returns the receiver after the call, paired with the object the returned reference
  designates: \<open>Some\<close> of the receiver after \<^verbatim>\<open>return *this;\<close>, and \<open>None\<close> where control
  reaches the end of the function body without a \<^verbatim>\<open>return\<close> statement.
\<close>

type_synonym assigned = "AD \<times> AD option"

definition return_this :: "AD \<Rightarrow> assigned" where
  "return_this a = (a, Some a)"

definition no_return :: "AD \<Rightarrow> assigned" where
  "no_return a = (a, None)"

text \<open>\<^verbatim>\<open>AD<N>& operator=(double other)\<close>\<close>

definition AD_assign_double :: "nat \<Rightarrow> AD \<Rightarrow> double \<Rightarrow> assigned" where
  "AD_assign_double N a other = return_this (AD_zero N (a\<lparr>x_fld := other\<rparr>))"

text \<open>\<^verbatim>\<open>AD<N>& operator=(AD<N> const& other)\<close>\<close>

definition AD_assign :: "nat \<Rightarrow> AD \<Rightarrow> AD \<Rightarrow> assigned" where
  "AD_assign N a other = return_this (AD_copy N a other)"

text \<open>\<^verbatim>\<open>AD<N>& operator+=(double other)\<close>\<close>

definition AD_add_assign_double :: "AD \<Rightarrow> double \<Rightarrow> assigned" where
  "AD_add_assign_double a other = return_this (a\<lparr>x_fld := x_fld a + other\<rparr>)"

text \<open>\<^verbatim>\<open>AD<N>& operator+=(AD<N> const& other)\<close>\<close>

definition AD_add_assign :: "nat \<Rightarrow> AD \<Rightarrow> AD \<Rightarrow> assigned" where
  "AD_add_assign N a other =
     (let a1 = a\<lparr>x_fld := x_fld a + x_fld other\<rparr>
      in return_this (a1\<lparr>dx_fld := for_dx N (\<lambda>i ds. ds ! i + dx_fld other ! i) (dx_fld a1)\<rparr>))"

text \<open>\<^verbatim>\<open>AD<N>& operator-=(double other)\<close>\<close>

definition AD_sub_assign_double :: "AD \<Rightarrow> double \<Rightarrow> assigned" where
  "AD_sub_assign_double a other = return_this (a\<lparr>x_fld := x_fld a - other\<rparr>)"

text \<open>\<^verbatim>\<open>AD<N>& operator-=(AD<N> const& other)\<close>\<close>

definition AD_sub_assign :: "nat \<Rightarrow> AD \<Rightarrow> AD \<Rightarrow> assigned" where
  "AD_sub_assign N a other =
     (let a1 = a\<lparr>x_fld := x_fld a - x_fld other\<rparr>
      in return_this (a1\<lparr>dx_fld := for_dx N (\<lambda>i ds. ds ! i - dx_fld other ! i) (dx_fld a1)\<rparr>))"

text \<open>\<^verbatim>\<open>AD<N>& operator*=(double other)\<close>\<close>

definition AD_mul_assign_double :: "nat \<Rightarrow> AD \<Rightarrow> double \<Rightarrow> assigned" where
  "AD_mul_assign_double N a other =
     (let a1 = a\<lparr>x_fld := x_fld a * other\<rparr>
      in return_this (a1\<lparr>dx_fld := for_dx N (\<lambda>i ds. ds ! i * other) (dx_fld a1)\<rparr>))"

text \<open>\<^verbatim>\<open>AD<N>& operator*=(AD<N> const& other)\<close>: \<^verbatim>\<open>x_\<close> is updated first and the loop
  reads the updated \<^verbatim>\<open>x_\<close>; the body ends without a \<^verbatim>\<open>return\<close>. The operand \<open>other\<close> is
  an object other than the receiver (\<^verbatim>\<open>a *= a\<close> is not covered).\<close>

definition AD_mul_assign :: "nat \<Rightarrow> AD \<Rightarrow> AD \<Rightarrow> assigned" where
  "AD_mul_assign N a other =
     (let a1 = a\<lparr>x_fld := x_fld a * x_fld other\<rparr>
      in no_return (a1\<lparr>dx_fld :=
           for_dx N (\<lambda>i ds. ds ! i * x_fld other + x_fld a1 * dx_fld other ! i) (dx_fld a1)\<rparr>))"

text \<open>Division of two \<^verbatim>\<open>double\<close>s: a zero divisor gives an infinity or a NaN.\<close>

definition div_double :: "double \<Rightarrow> double \<Rightarrow> double outcome" where
  "div_double x y = (if y = 0 then NonReal else Returns (x / y))"

text \<open>The loop over \<^verbatim>\<open>dx_\<close> with a right-hand side that divides.\<close>

definition for_dx_oc ::
  "nat \<Rightarrow> (nat \<Rightarrow> double list \<Rightarrow> double outcome) \<Rightarrow> double list \<Rightarrow> double list outcome" where
  "for_dx_oc N rhs ds = for_oc N (\<lambda>i ds. bind_oc (rhs i ds) (\<lambda>d. Returns (ds[i := d]))) ds"

text \<open>\<^verbatim>\<open>AD<N>& operator/=(double other)\<close>\<close>

definition AD_div_assign_double :: "nat \<Rightarrow> AD \<Rightarrow> double \<Rightarrow> assigned outcome" where
  "AD_div_assign_double N a other =
     bind_oc (div_double (x_fld a) other) (\<lambda>q.
       let a1 = a\<lparr>x_fld := q\<rparr>
       in bind_oc (for_dx_oc N (\<lambda>i ds. div_double (ds ! i) other) (dx_fld a1)) (\<lambda>ds.
            Returns (return_this (a1\<lparr>dx_fld := ds\<rparr>))))"

text \<open>\<^verbatim>\<open>AD<N>& operator/=(AD<N> const& other)\<close>: \<^verbatim>\<open>x_\<close> is updated first and the loop
  reads the updated \<^verbatim>\<open>x_\<close>; the body ends without a \<^verbatim>\<open>return\<close>. The operand \<open>other\<close> is
  an object other than the receiver (\<^verbatim>\<open>a /= a\<close> is not covered).\<close>

definition AD_div_assign :: "nat \<Rightarrow> AD \<Rightarrow> AD \<Rightarrow> assigned outcome" where
  "AD_div_assign N a other =
     bind_oc (div_double (x_fld a) (x_fld other)) (\<lambda>q.
       let a1 = a\<lparr>x_fld := q\<rparr>
       in bind_oc (for_dx_oc N (\<lambda>i ds.
              div_double (ds ! i * x_fld other - x_fld a1 * dx_fld other ! i)
                         (x_fld other * x_fld other)) (dx_fld a1)) (\<lambda>ds.
            Returns (no_return (a1\<lparr>dx_fld := ds\<rparr>))))"

subsection \<open>The binary operators of diff.h\<close>

text \<open>
  Each operator is \<^verbatim>\<open>AD<N> tmp; for (i < N) tmp.dx(i) = \<dots>; tmp.val() = \<dots>; return tmp;\<close>.
  Inside the loops the accessor \<^verbatim>\<open>dx(i)\<close> is called with \<open>i < N\<close> only.
\<close>

text \<open>\<^verbatim>\<open>operator+(double L, AD<N> const& R)\<close>\<close>

definition add_double_AD :: "nat \<Rightarrow> double \<Rightarrow> AD \<Rightarrow> AD" where
  "add_double_AD N L R =
     (let tmp = AD_default N;
          tmp = tmp\<lparr>dx_fld := for_dx N (\<lambda>i ds. dx_fld R ! i) (dx_fld tmp)\<rparr>
      in AD_set_val tmp (L + AD_val R))"

text \<open>\<^verbatim>\<open>operator+(AD<N> const& L, double R)\<close>\<close>

definition add_AD_double :: "nat \<Rightarrow> AD \<Rightarrow> double \<Rightarrow> AD" where
  "add_AD_double N L R =
     (let tmp = AD_default N;
          tmp = tmp\<lparr>dx_fld := for_dx N (\<lambda>i ds. dx_fld L ! i) (dx_fld tmp)\<rparr>
      in AD_set_val tmp (AD_val L + R))"

text \<open>\<^verbatim>\<open>operator+(AD<N> const& L, AD<N> const& R)\<close>\<close>

definition add_AD_AD :: "nat \<Rightarrow> AD \<Rightarrow> AD \<Rightarrow> AD" where
  "add_AD_AD N L R =
     (let tmp = AD_default N;
          tmp = tmp\<lparr>dx_fld := for_dx N (\<lambda>i ds. dx_fld L ! i + dx_fld R ! i) (dx_fld tmp)\<rparr>
      in AD_set_val tmp (AD_val L + AD_val R))"

text \<open>\<^verbatim>\<open>operator-(double L, AD<N> const& R)\<close>\<close>

definition sub_double_AD :: "nat \<Rightarrow> double \<Rightarrow> AD \<Rightarrow> AD" where
  "sub_double_AD N L R =
     (let tmp = AD_default N;
          tmp = tmp\<lparr>dx_fld := for_dx N (\<lambda>i ds. - (dx_fld R ! i)) (dx_fld tmp)\<rparr>
      in AD_set_val tmp (L - AD_val R))"

text \<open>\<^verbatim>\<open>operator-(AD<N> const& L, double R)\<close>\<close>

definition sub_AD_double :: "nat \<Rightarrow> AD \<Rightarrow> double \<Rightarrow> AD" where
  "sub_AD_double N L R =
     (let tmp = AD_default N;
          tmp = tmp\<lparr>dx_fld := for_dx N (\<lambda>i ds. dx_fld L ! i) (dx_fld tmp)\<rparr>
      in AD_set_val tmp (AD_val L - R))"

text \<open>\<^verbatim>\<open>operator-(AD<N> const& L, AD<N> const& R)\<close>\<close>

definition sub_AD_AD :: "nat \<Rightarrow> AD \<Rightarrow> AD \<Rightarrow> AD" where
  "sub_AD_AD N L R =
     (let tmp = AD_default N;
          tmp = tmp\<lparr>dx_fld := for_dx N (\<lambda>i ds. dx_fld L ! i - dx_fld R ! i) (dx_fld tmp)\<rparr>
      in AD_set_val tmp (AD_val L - AD_val R))"

text \<open>\<^verbatim>\<open>operator*(double L, AD<N> const& R)\<close>\<close>

definition mul_double_AD :: "nat \<Rightarrow> double \<Rightarrow> AD \<Rightarrow> AD" where
  "mul_double_AD N L R =
     (let tmp = AD_default N;
          tmp = tmp\<lparr>dx_fld := for_dx N (\<lambda>i ds. L * dx_fld R ! i) (dx_fld tmp)\<rparr>
      in AD_set_val tmp (L * AD_val R))"

text \<open>\<^verbatim>\<open>operator*(AD<N> const& L, double R)\<close>\<close>

definition mul_AD_double :: "nat \<Rightarrow> AD \<Rightarrow> double \<Rightarrow> AD" where
  "mul_AD_double N L R =
     (let tmp = AD_default N;
          tmp = tmp\<lparr>dx_fld := for_dx N (\<lambda>i ds. dx_fld L ! i * R) (dx_fld tmp)\<rparr>
      in AD_set_val tmp (AD_val L * R))"

text \<open>\<^verbatim>\<open>operator*(AD<N> const& L, AD<N> const& R)\<close>\<close>

definition mul_AD_AD :: "nat \<Rightarrow> AD \<Rightarrow> AD \<Rightarrow> AD" where
  "mul_AD_AD N L R =
     (let tmp = AD_default N;
          tmp = tmp\<lparr>dx_fld :=
                  for_dx N (\<lambda>i ds. dx_fld L ! i * AD_val R + AD_val L * dx_fld R ! i) (dx_fld tmp)\<rparr>
      in AD_set_val tmp (AD_val L * AD_val R))"

text \<open>\<^verbatim>\<open>operator/(double L, AD<N> const& R)\<close>\<close>

definition div_double_AD :: "nat \<Rightarrow> double \<Rightarrow> AD \<Rightarrow> AD outcome" where
  "div_double_AD N L R =
     (let tmp = AD_default N
      in bind_oc (for_dx_oc N (\<lambda>i ds.
             div_double (- L * dx_fld R ! i) (AD_val R * AD_val R)) (dx_fld tmp)) (\<lambda>ds.
         bind_oc (div_double L (AD_val R)) (\<lambda>q.
           Returns (AD_set_val (tmp\<lparr>dx_fld := ds\<rparr>) q))))"

text \<open>\<^verbatim>\<open>operator/(AD<N> const& L, double R)\<close>\<close>

definition div_AD_double :: "nat \<Rightarrow> AD \<Rightarrow> double \<Rightarrow> AD outcome" where
  "div_AD_double N L R =
     (let tmp = AD_default N
      in bind_oc (for_dx_oc N (\<lambda>i ds. div_double (dx_fld L ! i) R) (dx_fld tmp)) (\<lambda>ds.
         bind_oc (div_double (AD_val L) R) (\<lambda>q.
           Returns (AD_set_val (tmp\<lparr>dx_fld := ds\<rparr>) q))))"

text \<open>\<^verbatim>\<open>operator/(AD<N> const& L, AD<N> const& R)\<close>\<close>

definition div_AD_AD :: "nat \<Rightarrow> AD \<Rightarrow> AD \<Rightarrow> AD outcome" where
  "div_AD_AD N L R =
     (let tmp = AD_default N
      in bind_oc (for_dx_oc N (\<lambda>i ds.
             div_double (dx_fld L ! i * AD_val R - AD_val L * dx_fld R ! i)
                        (AD_val R * AD_val R)) (dx_fld tmp)) (\<lambda>ds.
         bind_oc (div_double (AD_val L) (AD_val R)) (\<lambda>q.
           Returns (AD_set_val (tmp\<lparr>dx_fld := ds\<rparr>) q))))"

subsection \<open>The functions of \<^verbatim>\<open><cmath>\<close> over the reals\<close>

text \<open>
  The largest finite \<^verbatim>\<open>double\<close> is \<open>2\<^sup>1\<^sup>0\<^sup>2\<^sup>4 - 2\<^sup>9\<^sup>7\<^sup>1\<close>. Rounding to nearest sends a real
  number to an infinity from half a unit in the last place above it, that is from
  \<open>2\<^sup>1\<^sup>0\<^sup>2\<^sup>4 - 2\<^sup>9\<^sup>7\<^sup>0\<close> in magnitude.
\<close>

definition overflows :: "real \<Rightarrow> bool" where
  "overflows r = (2 ^ 1024 - 2 ^ 970 \<le> \<bar>r\<bar>)"

text \<open>The result of a library function whose mathematical value is \<open>r\<close>: a range error
  gives an infinity.\<close>

definition finite_result :: "real \<Rightarrow> double outcome" where
  "finite_result r = (if overflows r then NonReal else Returns r)"

definition std_exp :: "double \<Rightarrow> double outcome" where
  "std_exp x = finite_result (exp x)"

text \<open>\<^verbatim>\<open>std::log\<close> has a real result for a positive argument only.\<close>

definition std_log :: "double \<Rightarrow> double outcome" where
  "std_log x = (if 0 < x then Returns (ln x) else NonReal)"

text \<open>\<^verbatim>\<open>std::pow\<close>: a zero base has a real power for a non-negative exponent, a negative
  base for an integral exponent; a power beyond the range of a \<^verbatim>\<open>double\<close> is an
  infinity.\<close>

definition std_pow :: "double \<Rightarrow> double \<Rightarrow> double outcome" where
  "std_pow x y =
     (if 0 < x then finite_result (x powr y)
      else if x = 0 then (if 0 < y then Returns 0 else if y = 0 then Returns 1 else NonReal)
      else if y = of_int \<lfloor>y\<rfloor> then finite_result (x powi \<lfloor>y\<rfloor>) else NonReal)"

subsection \<open>The expression nodes (expr.h)\<close>

text \<open>
  A node holds its operands by reference (\<^verbatim>\<open>L const& l_\<close>). The inner nodes and
  \<^verbatim>\<open>ConstExpr\<close> never change after construction, so they are a tree; a leaf
  \<^verbatim>\<open>ValExpr<T>\<close> is a variable of the program that can be assigned while a tree refers
  to it, so the tree holds its address. The store lists the \<^verbatim>\<open>ValExpr<AD<N>>\<close> objects,
  each given by its member \<^verbatim>\<open>v_\<close>; an address is a position in the store.
\<close>

type_synonym addr = nat

type_synonym store = "AD list"

datatype expr =
    ConstExpr double
  | ValExpr addr
  | AddExpr expr expr
  | SubExpr expr expr
  | MulExpr expr expr
  | DivExpr expr expr
  | ExpExpr expr
  | LogExpr expr
  | PowExpr expr expr

text \<open>Following a reference; an address outside the store is a dangling reference.\<close>

definition deref :: "store \<Rightarrow> addr \<Rightarrow> AD outcome" where
  "deref st a = (if a < length st then Returns (st ! a) else Undefined)"

text \<open>The member functions \<^verbatim>\<open>val() const\<close> of the node classes; the operands of an
  operator are evaluated from left to right.\<close>

fun expr_val :: "store \<Rightarrow> expr \<Rightarrow> double outcome" where
  "expr_val st (ConstExpr v) = Returns v"
| "expr_val st (ValExpr a) = bind_oc (deref st a) (\<lambda>v. Returns (AD_val v))"
| "expr_val st (AddExpr l r) =
     bind_oc (expr_val st l) (\<lambda>lv. bind_oc (expr_val st r) (\<lambda>rv. Returns (lv + rv)))"
| "expr_val st (SubExpr l r) =
     bind_oc (expr_val st l) (\<lambda>lv. bind_oc (expr_val st r) (\<lambda>rv. Returns (lv - rv)))"
| "expr_val st (MulExpr l r) =
     bind_oc (expr_val st l) (\<lambda>lv. bind_oc (expr_val st r) (\<lambda>rv. Returns (lv * rv)))"
| "expr_val st (DivExpr l r) =
     bind_oc (expr_val st l) (\<lambda>lv. bind_oc (expr_val st r) (\<lambda>rv. div_double lv rv))"
| "expr_val st (ExpExpr v) = bind_oc (expr_val st v) std_exp"
| "expr_val st (LogExpr v) = bind_oc (expr_val st v) std_log"
| "expr_val st (PowExpr l r) =
     bind_oc (expr_val st l) (\<lambda>lv. bind_oc (expr_val st r) (\<lambda>rv. std_pow lv rv))"

text \<open>The member functions \<^verbatim>\<open>dx(unsigned i) const\<close> of the node classes. The calls
  are made in the order in which the source writes them; \<^verbatim>\<open>val()\<close> has no effect on the
  store, so an operand whose \<^verbatim>\<open>val()\<close> the source calls again is evaluated once.\<close>

fun expr_dx :: "nat \<Rightarrow> store \<Rightarrow> expr \<Rightarrow> nat \<Rightarrow> double outcome" where
  "expr_dx N st (ConstExpr v) i = Returns 0"
| "expr_dx N st (ValExpr a) i = bind_oc (deref st a) (\<lambda>v. AD_dx N v i)"
| "expr_dx N st (AddExpr l r) i =
     bind_oc (expr_dx N st l i) (\<lambda>ld. bind_oc (expr_dx N st r i) (\<lambda>rd. Returns (ld + rd)))"
| "expr_dx N st (SubExpr l r) i =
     bind_oc (expr_dx N st l i) (\<lambda>ld. bind_oc (expr_dx N st r i) (\<lambda>rd. Returns (ld - rd)))"
| "expr_dx N st (MulExpr l r) i =
     bind_oc (expr_dx N st l i) (\<lambda>ld. bind_oc (expr_val st r) (\<lambda>rv.
     bind_oc (expr_val st l) (\<lambda>lv. bind_oc (expr_dx N st r i) (\<lambda>rd.
       Returns (ld * rv + lv * rd)))))"
| "expr_dx N st (DivExpr l r) i =
     bind_oc (expr_dx N st l i) (\<lambda>ld. bind_oc (expr_val st r) (\<lambda>rv.
     bind_oc (expr_val st l) (\<lambda>lv. bind_oc (expr_dx N st r i) (\<lambda>rd.
       div_double (ld * rv - lv * rd) (rv * rv)))))"
| "expr_dx N st (ExpExpr v) i =
     bind_oc (expr_dx N st v i) (\<lambda>d. bind_oc (expr_val st v) (\<lambda>x.
     bind_oc (std_exp x) (\<lambda>e. Returns (d * e))))"
| "expr_dx N st (LogExpr v) i =
     bind_oc (expr_dx N st v i) (\<lambda>d. bind_oc (expr_val st v) (\<lambda>x. div_double d x))"
| "expr_dx N st (PowExpr l r) i =
     bind_oc (expr_dx N st r i) (\<lambda>rd. bind_oc (expr_val st l) (\<lambda>lv.
     bind_oc (std_log lv) (\<lambda>lg. bind_oc (expr_val st r) (\<lambda>rv.
     bind_oc (std_pow lv rv) (\<lambda>p. bind_oc (expr_dx N st l i) (\<lambda>ld.
     bind_oc (std_pow lv (rv - 1)) (\<lambda>q.
       Returns (rd * lg * p + rv * ld * q))))))))"

text \<open>The leaves a tree refers to, and the trees all of whose leaves are live objects of
  type \<^verbatim>\<open>ValExpr<AD<N>>\<close>.\<close>

fun refs :: "expr \<Rightarrow> addr set" where
  "refs (ConstExpr v) = {}"
| "refs (ValExpr a) = {a}"
| "refs (AddExpr l r) = refs l \<union> refs r"
| "refs (SubExpr l r) = refs l \<union> refs r"
| "refs (MulExpr l r) = refs l \<union> refs r"
| "refs (DivExpr l r) = refs l \<union> refs r"
| "refs (ExpExpr v) = refs v"
| "refs (LogExpr v) = refs v"
| "refs (PowExpr l r) = refs l \<union> refs r"

fun leaves_wf :: "nat \<Rightarrow> store \<Rightarrow> expr \<Rightarrow> bool" where
  "leaves_wf N st (ConstExpr v) = True"
| "leaves_wf N st (ValExpr a) = (a < length st \<and> wf_AD N (st ! a))"
| "leaves_wf N st (AddExpr l r) = (leaves_wf N st l \<and> leaves_wf N st r)"
| "leaves_wf N st (SubExpr l r) = (leaves_wf N st l \<and> leaves_wf N st r)"
| "leaves_wf N st (MulExpr l r) = (leaves_wf N st l \<and> leaves_wf N st r)"
| "leaves_wf N st (DivExpr l r) = (leaves_wf N st l \<and> leaves_wf N st r)"
| "leaves_wf N st (ExpExpr v) = leaves_wf N st v"
| "leaves_wf N st (LogExpr v) = leaves_wf N st v"
| "leaves_wf N st (PowExpr l r) = (leaves_wf N st l \<and> leaves_wf N st r)"

subsection \<open>The class \<open>ValExpr<T>\<close> for \<open>T = AD<N>\<close>\<close>

text \<open>
  \<^verbatim>\<open>ValExpr<T>\<close> takes its loop bound from \<^verbatim>\<open>T::degree\<close>, which \<^verbatim>\<open>AD<N>\<close> does not
  declare; the bound is the parameter \<open>degree\<close>. The accessors delegate to \<^verbatim>\<open>v_\<close>.
\<close>

text \<open>\<^verbatim>\<open>void diff(unsigned int idx)\<close>, on the member \<^verbatim>\<open>v_\<close>.\<close>

definition ValExpr_diff :: "nat \<Rightarrow> nat \<Rightarrow> AD \<Rightarrow> nat \<Rightarrow> AD outcome" where
  "ValExpr_diff degree N v idx =
     bind_oc (for_oc degree (\<lambda>i v. AD_set_dx N v i 0) v) (\<lambda>v. AD_set_dx N v idx 1)"

text \<open>Writing through \<^verbatim>\<open>this->val()\<close> and \<^verbatim>\<open>this->dx(i)\<close> of the object at address \<open>t\<close>.\<close>

definition ValExpr_set_val :: "store \<Rightarrow> addr \<Rightarrow> double \<Rightarrow> store outcome" where
  "ValExpr_set_val st t x =
     bind_oc (deref st t) (\<lambda>v. Returns (st[t := AD_set_val v x]))"

definition ValExpr_set_dx :: "nat \<Rightarrow> store \<Rightarrow> addr \<Rightarrow> nat \<Rightarrow> double \<Rightarrow> store outcome" where
  "ValExpr_set_dx N st t i d =
     bind_oc (deref st t) (\<lambda>v. bind_oc (AD_set_dx N v i d) (\<lambda>v. Returns (st[t := v])))"

text \<open>\<^verbatim>\<open>void assign(CRTPExpr<R> const& r)\<close> for the object at address \<open>t\<close>: the tree is
  evaluated in the store as it is at that moment.\<close>

definition ValExpr_assign :: "nat \<Rightarrow> nat \<Rightarrow> store \<Rightarrow> addr \<Rightarrow> expr \<Rightarrow> store outcome" where
  "ValExpr_assign degree N st t r =
     bind_oc (expr_val st r) (\<lambda>x. bind_oc (ValExpr_set_val st t x) (\<lambda>st.
       for_oc degree (\<lambda>i st. bind_oc (expr_dx N st r i) (\<lambda>d. ValExpr_set_dx N st t i d)) st))"

text \<open>\<^verbatim>\<open>ValExpr(CRTPExpr<R> const& r) { assign(r); }\<close>: the member \<^verbatim>\<open>v_\<close> is default
  constructed, and the new object takes the next address of the store.\<close>

definition ValExpr_construct :: "nat \<Rightarrow> nat \<Rightarrow> store \<Rightarrow> expr \<Rightarrow> store outcome" where
  "ValExpr_construct degree N st r =
     ValExpr_assign degree N (st @ [AD_default N]) (length st) r"

subsection \<open>The two evaluation strategies side by side\<close>

text \<open>
  The eager evaluation of an expression: every leaf is the dual number itself, a constant
  is promoted by the constructor \<^verbatim>\<open>AD(double)\<close>, and every operator of the expression is
  the binary operator of diff.h on \<^verbatim>\<open>AD<N>\<close>, applied to the materialised operands.
  diff.h has no \<^verbatim>\<open>exp\<close>, \<^verbatim>\<open>log\<close> or \<^verbatim>\<open>pow\<close> on \<^verbatim>\<open>AD<N>\<close>, so only the expressions in
  \<open>arith_only\<close> have an eager evaluation.
\<close>

fun arith_only :: "expr \<Rightarrow> bool" where
  "arith_only (ConstExpr v) = True"
| "arith_only (ValExpr a) = True"
| "arith_only (AddExpr l r) = (arith_only l \<and> arith_only r)"
| "arith_only (SubExpr l r) = (arith_only l \<and> arith_only r)"
| "arith_only (MulExpr l r) = (arith_only l \<and> arith_only r)"
| "arith_only (DivExpr l r) = (arith_only l \<and> arith_only r)"
| "arith_only (ExpExpr v) = False"
| "arith_only (LogExpr v) = False"
| "arith_only (PowExpr l r) = False"

fun eager_eval :: "nat \<Rightarrow> store \<Rightarrow> expr \<Rightarrow> AD outcome" where
  "eager_eval N st (ConstExpr v) = Returns (AD_double N v)"
| "eager_eval N st (ValExpr a) = deref st a"
| "eager_eval N st (AddExpr l r) =
     bind_oc (eager_eval N st l) (\<lambda>L. bind_oc (eager_eval N st r) (\<lambda>R. Returns (add_AD_AD N L R)))"
| "eager_eval N st (SubExpr l r) =
     bind_oc (eager_eval N st l) (\<lambda>L. bind_oc (eager_eval N st r) (\<lambda>R. Returns (sub_AD_AD N L R)))"
| "eager_eval N st (MulExpr l r) =
     bind_oc (eager_eval N st l) (\<lambda>L. bind_oc (eager_eval N st r) (\<lambda>R. Returns (mul_AD_AD N L R)))"
| "eager_eval N st (DivExpr l r) =
     bind_oc (eager_eval N st l) (\<lambda>L. bind_oc (eager_eval N st r) (\<lambda>R. div_AD_AD N L R))"

text \<open>The derivatives \<open>0, \<dots>, k - 1\<close> of a tree, each evaluated once and in this order.\<close>

primrec tree_gradient :: "nat \<Rightarrow> store \<Rightarrow> expr \<Rightarrow> nat \<Rightarrow> double list outcome" where
  "tree_gradient N st r 0 = Returns []"
| "tree_gradient N st r (Suc k) =
     bind_oc (tree_gradient N st r k) (\<lambda>ds. bind_oc (expr_dx N st r k) (\<lambda>d. Returns (ds @ [d])))"

subsection \<open>The division by a scalar over the range of a \<open>double\<close>\<close>

text \<open>
  A \<^verbatim>\<open>double\<close> with its special values: a real number within the range, an infinity
  or a NaN. The arithmetic follows IEEE 754 for the infinities and NaN, and a result
  beyond the range is an infinity; results are not rounded, and a zero is \<open>+0\<close>.
\<close>

datatype xdouble = Fin real | PInf | NInf | NaN

definition to_double :: "real \<Rightarrow> xdouble" where
  "to_double r = (if overflows r then (if 0 < r then PInf else NInf) else Fin r)"

fun x_mul :: "xdouble \<Rightarrow> xdouble \<Rightarrow> xdouble" where
  "x_mul (Fin a) (Fin b) = to_double (a * b)"
| "x_mul (Fin a) PInf = (if a = 0 then NaN else if 0 < a then PInf else NInf)"
| "x_mul (Fin a) NInf = (if a = 0 then NaN else if 0 < a then NInf else PInf)"
| "x_mul PInf (Fin b) = (if b = 0 then NaN else if 0 < b then PInf else NInf)"
| "x_mul NInf (Fin b) = (if b = 0 then NaN else if 0 < b then NInf else PInf)"
| "x_mul PInf PInf = PInf"
| "x_mul PInf NInf = NInf"
| "x_mul NInf PInf = NInf"
| "x_mul NInf NInf = PInf"
| "x_mul NaN y = NaN"
| "x_mul x NaN = NaN"

fun x_sub :: "xdouble \<Rightarrow> xdouble \<Rightarrow> xdouble" where
  "x_sub (Fin a) (Fin b) = to_double (a - b)"
| "x_sub (Fin a) PInf = NInf"
| "x_sub (Fin a) NInf = PInf"
| "x_sub PInf (Fin b) = PInf"
| "x_sub NInf (Fin b) = NInf"
| "x_sub PInf PInf = NaN"
| "x_sub PInf NInf = PInf"
| "x_sub NInf PInf = NInf"
| "x_sub NInf NInf = NaN"
| "x_sub NaN y = NaN"
| "x_sub x NaN = NaN"

fun x_div :: "xdouble \<Rightarrow> xdouble \<Rightarrow> xdouble" where
  "x_div (Fin a) (Fin b) =
     (if b = 0 then (if a = 0 then NaN else if 0 < a then PInf else NInf)
      else to_double (a / b))"
| "x_div (Fin a) PInf = Fin 0"
| "x_div (Fin a) NInf = Fin 0"
| "x_div PInf (Fin b) = (if 0 \<le> b then PInf else NInf)"
| "x_div NInf (Fin b) = (if 0 \<le> b then NInf else PInf)"
| "x_div PInf PInf = NaN"
| "x_div PInf NInf = NaN"
| "x_div NInf PInf = NaN"
| "x_div NInf NInf = NaN"
| "x_div NaN y = NaN"
| "x_div x NaN = NaN"

text \<open>The class \<^verbatim>\<open>AD<N>\<close> over these values: the members, \<^verbatim>\<open>zero()\<close> and the
  constructors \<^verbatim>\<open>AD()\<close> and \<^verbatim>\<open>AD(double x)\<close>.\<close>

record xAD =
  xx_fld :: xdouble
  xdx_fld :: "xdouble list"

definition xAD_zero :: "nat \<Rightarrow> xAD \<Rightarrow> xAD" where
  "xAD_zero N a = a\<lparr>xdx_fld := fold (\<lambda>i ds. ds[i := Fin 0]) [0..<N] (xdx_fld a)\<rparr>"

definition xAD_default :: "nat \<Rightarrow> xAD" where
  "xAD_default N = xAD_zero N \<lparr>xx_fld = Fin 0, xdx_fld = replicate N undefined\<rparr>"

definition xAD_double :: "nat \<Rightarrow> xdouble \<Rightarrow> xAD" where
  "xAD_double N x = xAD_zero N \<lparr>xx_fld = x, xdx_fld = replicate N undefined\<rparr>"

text \<open>\<^verbatim>\<open>operator/(AD<N> const& L, double R)\<close>\<close>

definition x_div_AD_double :: "nat \<Rightarrow> xAD \<Rightarrow> xdouble \<Rightarrow> xAD" where
  "x_div_AD_double N L R =
     (let tmp = xAD_default N;
          tmp = tmp\<lparr>xdx_fld :=
                  fold (\<lambda>i ds. ds[i := x_div (xdx_fld L ! i) R]) [0..<N] (xdx_fld tmp)\<rparr>
      in tmp\<lparr>xx_fld := x_div (xx_fld L) R\<rparr>)"

text \<open>\<^verbatim>\<open>operator/(AD<N> const& L, AD<N> const& R)\<close>\<close>

definition x_div_AD_AD :: "nat \<Rightarrow> xAD \<Rightarrow> xAD \<Rightarrow> xAD" where
  "x_div_AD_AD N L R =
     (let tmp = xAD_default N;
          tmp = tmp\<lparr>xdx_fld :=
                  fold (\<lambda>i ds. ds[i :=
                          x_div (x_sub (x_mul (xdx_fld L ! i) (xx_fld R))
                                       (x_mul (xx_fld L) (xdx_fld R ! i)))
                                (x_mul (xx_fld R) (xx_fld R))])
                       [0..<N] (xdx_fld tmp)\<rparr>
      in tmp\<lparr>xx_fld := x_div (xx_fld L) (xx_fld R)\<rparr>)"

section \<open>Properties of the loops and of the operators\<close>

subsection \<open>The loops over \<open>dx_\<close>\<close>

lemma for_dx_nth:
  "n \<le> length ds \<Longrightarrow>
   for_dx n (\<lambda>i ds. g i (ds ! i)) ds = map (\<lambda>i. g i (ds ! i)) [0..<n] @ drop n ds"
proof (induction n)
  case 0
  then show ?case by (simp add: for_dx_def)
next
  case (Suc n)
  then have IH: "for_dx n (\<lambda>i ds. g i (ds ! i)) ds = map (\<lambda>i. g i (ds ! i)) [0..<n] @ drop n ds"
    and n: "n < length ds" by simp_all
  have "for_dx (Suc n) (\<lambda>i ds. g i (ds ! i)) ds =
        (for_dx n (\<lambda>i ds. g i (ds ! i)) ds)[n := g n (for_dx n (\<lambda>i ds. g i (ds ! i)) ds ! n)]"
    by (simp add: for_dx_def)
  also have "\<dots> = map (\<lambda>i. g i (ds ! i)) [0..<n] @ (drop n ds)[0 := g n (ds ! n)]"
    using n by (simp add: IH list_update_append nth_append)
  also have "(drop n ds)[0 := g n (ds ! n)] = g n (ds ! n) # drop (Suc n) ds"
    using n by (simp add: Cons_nth_drop_Suc [symmetric])
  finally show ?case by simp
qed

lemma for_dx_const:
  "length ds = N \<Longrightarrow> for_dx N (\<lambda>i ds. f i) ds = map f [0..<N]"
  using for_dx_nth [of N ds "\<lambda>i d. f i"] by simp

lemma for_dx_read:
  "length ds = N \<Longrightarrow> for_dx N (\<lambda>i ds. g i (ds ! i)) ds = map (\<lambda>i. g i (ds ! i)) [0..<N]"
  using for_dx_nth [of N ds g] by simp

lemma AD_zero_eq: "wf_AD N a \<Longrightarrow> AD_zero N a = a\<lparr>dx_fld := replicate N 0\<rparr>"
  by (simp add: AD_zero_def wf_AD_def for_dx_const map_replicate_const)

lemma AD_default_eq: "AD_default N = \<lparr>x_fld = 0, dx_fld = replicate N 0\<rparr>"
  by (simp add: AD_default_def uninitialised_def AD_zero_eq wf_AD_def)

lemma AD_double_eq: "AD_double N x = \<lparr>x_fld = x, dx_fld = replicate N 0\<rparr>"
  by (simp add: AD_double_def uninitialised_def AD_zero_eq wf_AD_def)

lemma for_oc_div:
  "n \<le> length ds \<Longrightarrow>
   for_dx_oc n (\<lambda>i ds. div_double (g i (ds ! i)) c) ds =
     (if c = 0 \<and> 0 < n then NonReal
      else Returns (map (\<lambda>i. g i (ds ! i) / c) [0..<n] @ drop n ds))"
proof (induction n)
  case 0
  then show ?case by (simp add: for_dx_oc_def)
next
  case (Suc n)
  then have IH: "for_dx_oc n (\<lambda>i ds. div_double (g i (ds ! i)) c) ds =
     (if c = 0 \<and> 0 < n then NonReal
      else Returns (map (\<lambda>i. g i (ds ! i) / c) [0..<n] @ drop n ds))"
    and n: "n < length ds" by simp_all
  have step: "for_dx_oc (Suc n) (\<lambda>i ds. div_double (g i (ds ! i)) c) ds =
      bind_oc (for_dx_oc n (\<lambda>i ds. div_double (g i (ds ! i)) c) ds)
        (\<lambda>ds. bind_oc (div_double (g n (ds ! n)) c) (\<lambda>d. Returns (ds[n := d])))"
    by (simp add: for_dx_oc_def)
  have upd: "(map (\<lambda>i. g i (ds ! i) / c) [0..<n] @ drop n ds)[n := v] =
        map (\<lambda>i. g i (ds ! i) / c) [0..<n] @ v # drop (Suc n) ds" for v
    using n by (simp add: list_update_append Cons_nth_drop_Suc [symmetric])
  show ?case
    unfolding step IH using n
    by (auto simp: div_double_def upd nth_append)
qed

subsection \<open>What each operator computes\<close>

lemma add_AD_AD_eq:
  "wf_AD N L \<Longrightarrow> wf_AD N R \<Longrightarrow>
   add_AD_AD N L R = \<lparr>x_fld = x_fld L + x_fld R, dx_fld = map (\<lambda>i. dx_fld L ! i + dx_fld R ! i) [0..<N]\<rparr>"
  by (simp add: add_AD_AD_def AD_default_eq for_dx_const AD_set_val_def AD_val_def)

lemma sub_AD_AD_eq:
  "wf_AD N L \<Longrightarrow> wf_AD N R \<Longrightarrow>
   sub_AD_AD N L R = \<lparr>x_fld = x_fld L - x_fld R, dx_fld = map (\<lambda>i. dx_fld L ! i - dx_fld R ! i) [0..<N]\<rparr>"
  by (simp add: sub_AD_AD_def AD_default_eq for_dx_const AD_set_val_def AD_val_def)

lemma mul_AD_AD_eq:
  "wf_AD N L \<Longrightarrow> wf_AD N R \<Longrightarrow>
   mul_AD_AD N L R = \<lparr>x_fld = x_fld L * x_fld R,
      dx_fld = map (\<lambda>i. dx_fld L ! i * x_fld R + x_fld L * dx_fld R ! i) [0..<N]\<rparr>"
  by (simp add: mul_AD_AD_def AD_default_eq for_dx_const AD_set_val_def AD_val_def)

lemma div_AD_AD_eq:
  "wf_AD N L \<Longrightarrow> wf_AD N R \<Longrightarrow>
   div_AD_AD N L R =
     (if x_fld R = 0 then NonReal
      else Returns \<lparr>x_fld = x_fld L / x_fld R,
        dx_fld = map (\<lambda>i. (dx_fld L ! i * x_fld R - x_fld L * dx_fld R ! i) / (x_fld R * x_fld R)) [0..<N]\<rparr>)"
  using for_oc_div [of N "replicate N 0" "\<lambda>i d. dx_fld L ! i * x_fld R - x_fld L * dx_fld R ! i" "x_fld R * x_fld R"]
  by (simp add: div_AD_AD_def AD_default_eq AD_set_val_def AD_val_def div_double_def)

lemma add_double_AD_eq:
  "wf_AD N R \<Longrightarrow> add_double_AD N L R = \<lparr>x_fld = L + x_fld R, dx_fld = map (\<lambda>i. dx_fld R ! i) [0..<N]\<rparr>"
  by (simp add: add_double_AD_def AD_default_eq for_dx_const AD_set_val_def AD_val_def)

lemma add_AD_double_eq:
  "wf_AD N L \<Longrightarrow> add_AD_double N L R = \<lparr>x_fld = x_fld L + R, dx_fld = map (\<lambda>i. dx_fld L ! i) [0..<N]\<rparr>"
  by (simp add: add_AD_double_def AD_default_eq for_dx_const AD_set_val_def AD_val_def)

lemma sub_double_AD_eq:
  "wf_AD N R \<Longrightarrow> sub_double_AD N L R = \<lparr>x_fld = L - x_fld R, dx_fld = map (\<lambda>i. - (dx_fld R ! i)) [0..<N]\<rparr>"
  by (simp add: sub_double_AD_def AD_default_eq for_dx_const AD_set_val_def AD_val_def)

lemma sub_AD_double_eq:
  "wf_AD N L \<Longrightarrow> sub_AD_double N L R = \<lparr>x_fld = x_fld L - R, dx_fld = map (\<lambda>i. dx_fld L ! i) [0..<N]\<rparr>"
  by (simp add: sub_AD_double_def AD_default_eq for_dx_const AD_set_val_def AD_val_def)

lemma mul_double_AD_eq:
  "wf_AD N R \<Longrightarrow> mul_double_AD N L R = \<lparr>x_fld = L * x_fld R, dx_fld = map (\<lambda>i. L * dx_fld R ! i) [0..<N]\<rparr>"
  by (simp add: mul_double_AD_def AD_default_eq for_dx_const AD_set_val_def AD_val_def)

lemma mul_AD_double_eq:
  "wf_AD N L \<Longrightarrow> mul_AD_double N L R = \<lparr>x_fld = x_fld L * R, dx_fld = map (\<lambda>i. dx_fld L ! i * R) [0..<N]\<rparr>"
  by (simp add: mul_AD_double_def AD_default_eq for_dx_const AD_set_val_def AD_val_def)

lemma div_double_AD_eq:
  "wf_AD N R \<Longrightarrow>
   div_double_AD N L R =
     (if x_fld R = 0 then NonReal
      else Returns \<lparr>x_fld = L / x_fld R,
        dx_fld = map (\<lambda>i. (- L * dx_fld R ! i) / (x_fld R * x_fld R)) [0..<N]\<rparr>)"
  using for_oc_div [of N "replicate N 0" "\<lambda>i d. - L * dx_fld R ! i" "x_fld R * x_fld R"]
  by (simp add: div_double_AD_def AD_default_eq AD_set_val_def AD_val_def div_double_def)

lemma div_AD_double_eq:
  "wf_AD N L \<Longrightarrow>
   div_AD_double N L R =
     (if R = 0 then NonReal
      else Returns \<lparr>x_fld = x_fld L / R, dx_fld = map (\<lambda>i. dx_fld L ! i / R) [0..<N]\<rparr>)"
  using for_oc_div [of N "replicate N 0" "\<lambda>i d. dx_fld L ! i" R]
  by (simp add: div_AD_double_def AD_default_eq AD_set_val_def AD_val_def div_double_def)

lemma wf_AD_double: "wf_AD N (AD_double N s)"
  by (simp add: AD_double_eq wf_AD_def)

lemma AD_mul_assign_eq:
  assumes "wf_AD N a" and "wf_AD N b"
  shows "AD_mul_assign N a b =
     (\<lparr>x_fld = x_fld a * x_fld b,
       dx_fld = map (\<lambda>i. dx_fld a ! i * x_fld b + (x_fld a * x_fld b) * dx_fld b ! i) [0..<N]\<rparr>,
      None)"
proof -
  have "for_dx N (\<lambda>i ds. ds ! i * x_fld b + (x_fld a * x_fld b) * dx_fld b ! i) (dx_fld a) =
        map (\<lambda>i. dx_fld a ! i * x_fld b + (x_fld a * x_fld b) * dx_fld b ! i) [0..<N]"
    using assms for_dx_read [of "dx_fld a" N "\<lambda>i d. d * x_fld b + (x_fld a * x_fld b) * dx_fld b ! i"]
    by (simp add: wf_AD_def)
  then show ?thesis
    by (cases a) (simp add: AD_mul_assign_def no_return_def)
qed

lemma AD_div_assign_eq:
  assumes "wf_AD N a" and "wf_AD N b"
  shows "AD_div_assign N a b =
     (if x_fld b = 0 then NonReal
      else Returns (\<lparr>x_fld = x_fld a / x_fld b,
        dx_fld = map (\<lambda>i. (dx_fld a ! i * x_fld b - (x_fld a / x_fld b) * dx_fld b ! i)
                          / (x_fld b * x_fld b)) [0..<N]\<rparr>, None))"
proof (cases "x_fld b = 0")
  case True
  then show ?thesis by (simp add: AD_div_assign_def div_double_def)
next
  case False
  have "for_dx_oc N (\<lambda>i ds. div_double (ds ! i * x_fld b - (x_fld a / x_fld b) * dx_fld b ! i)
            (x_fld b * x_fld b)) (dx_fld a) =
        Returns (map (\<lambda>i. (dx_fld a ! i * x_fld b - (x_fld a / x_fld b) * dx_fld b ! i)
                          / (x_fld b * x_fld b)) [0..<N])"
    using assms False
      for_oc_div [of N "dx_fld a" "\<lambda>i d. d * x_fld b - (x_fld a / x_fld b) * dx_fld b ! i"
        "x_fld b * x_fld b"]
    by (simp add: wf_AD_def)
  with False show ?thesis
    by (cases a) (simp add: AD_div_assign_def no_return_def div_double_def)
qed

lemma for_oc_set_dx_zero:
  "n \<le> N \<Longrightarrow> wf_AD N v \<Longrightarrow>
   for_oc n (\<lambda>i v. AD_set_dx N v i 0) v = Returns (v\<lparr>dx_fld := replicate n 0 @ drop n (dx_fld v)\<rparr>)"
proof (induction n)
  case 0
  then show ?case by simp
next
  case (Suc n)
  then have "n < length (dx_fld v)" by (simp add: wf_AD_def)
  then have "(replicate n 0 @ drop n (dx_fld v))[n := 0] = replicate (Suc n) 0 @ drop (Suc n) (dx_fld v)"
    by (simp add: list_update_append Cons_nth_drop_Suc [symmetric] replicate_append_same)
  with Suc show ?case by (simp add: AD_set_dx_def)
qed

subsection \<open>Trees and the store\<close>

lemma eager_eval_wf:
  "arith_only e \<Longrightarrow> leaves_wf N st e \<Longrightarrow> eager_eval N st e = Returns r \<Longrightarrow> wf_AD N r"
proof (induction e arbitrary: r)
  case (ConstExpr v)
  then show ?case by (auto simp: wf_AD_double)
next
  case (ValExpr a)
  then show ?case by (auto simp: deref_def)
next
  case (AddExpr l r')
  then show ?case
    by (cases "eager_eval N st l"; cases "eager_eval N st r'")
       (auto simp: add_AD_AD_eq wf_AD_def)
next
  case (SubExpr l r')
  then show ?case
    by (cases "eager_eval N st l"; cases "eager_eval N st r'")
       (auto simp: sub_AD_AD_eq wf_AD_def)
next
  case (MulExpr l r')
  then show ?case
    by (cases "eager_eval N st l"; cases "eager_eval N st r'")
       (auto simp: mul_AD_AD_eq wf_AD_def)
next
  case (DivExpr l r')
  then show ?case
    by (cases "eager_eval N st l"; cases "eager_eval N st r'")
       (auto simp: div_AD_AD_eq wf_AD_def split: if_splits)
qed simp_all

lemma AD_eta: "\<lparr>x_fld = x_fld v, dx_fld = dx_fld v\<rparr> = v"
  by (cases v) simp

lemma AD_update_x: "v\<lparr>x_fld := x\<rparr> = \<lparr>x_fld = x, dx_fld = dx_fld v\<rparr>"
  by (cases v) simp

lemma deref_update_other: "a \<noteq> t \<Longrightarrow> deref (st[t := v]) a = deref st a"
  by (simp add: deref_def)

lemma deref_update_same: "t < length st \<Longrightarrow> deref (st[t := v]) t = Returns v"
  by (simp add: deref_def)

lemma expr_val_frame: "t \<notin> refs e \<Longrightarrow> expr_val (st[t := v]) e = expr_val st e"
  by (induction e) (simp_all add: deref_update_other)

lemma expr_dx_frame: "t \<notin> refs e \<Longrightarrow> expr_dx N (st[t := v]) e i = expr_dx N st e i"
  by (induction e) (simp_all add: deref_update_other expr_val_frame)

lemma leaves_wf_refs: "leaves_wf N st e \<Longrightarrow> a \<in> refs e \<Longrightarrow> a < length st"
  by (induction e) auto

lemma deref_append: "a < length st \<Longrightarrow> deref (st @ ys) a = deref st a"
  by (simp add: deref_def nth_append)

lemma expr_val_append: "leaves_wf N st e \<Longrightarrow> expr_val (st @ ys) e = expr_val st e"
  by (induction e) (simp_all add: deref_append)

lemma expr_dx_append: "leaves_wf N st e \<Longrightarrow> expr_dx N (st @ ys) e i = expr_dx N st e i"
  by (induction e) (simp_all add: deref_append expr_val_append [where N = N])

lemma tree_gradient_length: "tree_gradient N st e k = Returns ds \<Longrightarrow> length ds = k"
proof (induction k arbitrary: ds)
  case 0
  then show ?case by simp
next
  case (Suc k)
  then show ?case
    by (cases "tree_gradient N st e k"; cases "expr_dx N st e k") auto
qed

lemma tree_gradient_iff:
  "(tree_gradient N st e k = Returns ds) =
   (length ds = k \<and> (\<forall>i<k. expr_dx N st e i = Returns (ds ! i)))"
proof (induction k arbitrary: ds)
  case 0
  then show ?case by auto
next
  case (Suc k)
  show ?case
  proof
    assume L: "tree_gradient N st e (Suc k) = Returns ds"
    then obtain ds' d where ds': "tree_gradient N st e k = Returns ds'"
      and d: "expr_dx N st e k = Returns d" and eq: "ds = ds' @ [d]"
      by (cases "tree_gradient N st e k"; cases "expr_dx N st e k") auto
    from ds' Suc.IH [of ds'] have len: "length ds' = k"
      and nth: "\<forall>i<k. expr_dx N st e i = Returns (ds' ! i)" by simp_all
    show "length ds = Suc k \<and> (\<forall>i<Suc k. expr_dx N st e i = Returns (ds ! i))"
      using len nth d eq by (auto simp: nth_append less_Suc_eq)
  next
    assume R: "length ds = Suc k \<and> (\<forall>i<Suc k. expr_dx N st e i = Returns (ds ! i))"
    then have "ds \<noteq> []" by auto
    then obtain ds' d where eq: "ds = ds' @ [d]" by (metis rev_exhaust)
    with R have len: "length ds' = k" by simp
    from R eq len have "\<forall>i<k. expr_dx N st e i = Returns (ds' ! i)"
      by (auto simp: nth_append less_Suc_eq)
    with len Suc.IH [of ds'] have 1: "tree_gradient N st e k = Returns ds'" by simp
    from R eq len have 2: "expr_dx N st e k = Returns d"
      by (auto simp: nth_append)
    show "tree_gradient N st e (Suc k) = Returns ds"
      by (simp add: 1 2 eq)
  qed
qed

lemma assign_loop:
  assumes t: "t < length st" and fresh: "t \<notin> refs e" and len: "length ds0 = N"
  shows "k \<le> N \<Longrightarrow>
     for_oc k (\<lambda>i s. bind_oc (expr_dx N s e i) (\<lambda>d. ValExpr_set_dx N s t i d))
        (st[t := \<lparr>x_fld = x, dx_fld = ds0\<rparr>]) =
     map_oc (\<lambda>ds. st[t := \<lparr>x_fld = x, dx_fld = ds @ drop k ds0\<rparr>]) (tree_gradient N st e k)"
proof (induction k)
  case 0
  then show ?case by (simp add: map_oc_def)
next
  case (Suc k)
  let ?body = "\<lambda>i s. bind_oc (expr_dx N s e i) (\<lambda>d. ValExpr_set_dx N s t i d)"
  let ?s0 = "st[t := \<lparr>x_fld = x, dx_fld = ds0\<rparr>]"
  from Suc have IH: "for_oc k ?body ?s0 =
     map_oc (\<lambda>ds. st[t := \<lparr>x_fld = x, dx_fld = ds @ drop k ds0\<rparr>]) (tree_gradient N st e k)"
    and k: "k < N" by simp_all
  have step: "for_oc (Suc k) ?body ?s0 =
     bind_oc (map_oc (\<lambda>ds. st[t := \<lparr>x_fld = x, dx_fld = ds @ drop k ds0\<rparr>])
        (tree_gradient N st e k)) (?body k)"
    by (simp only: for_oc.simps IH)
  show ?case
  proof (cases "tree_gradient N st e k")
    case (Returns ds)
    then have lds: "length ds = k" by (rule tree_gradient_length)
    have upd: "(ds @ drop k ds0)[k := d] = (ds @ [d]) @ drop (Suc k) ds0" for d
      using lds k len by (simp add: list_update_append Cons_nth_drop_Suc [symmetric])
    show ?thesis
      unfolding step using Returns k t
      by (cases "expr_dx N st e k")
         (simp_all add: map_oc_def expr_dx_frame [OF fresh] ValExpr_set_dx_def
            deref_update_same AD_set_dx_def upd)
  qed (unfold step, simp_all add: map_oc_def)
qed

lemma assign_eq:
  assumes t: "t < length st" and fresh: "t \<notin> refs e" and wf: "wf_AD N (st ! t)"
  shows "ValExpr_assign N N st t e =
     bind_oc (expr_val st e) (\<lambda>x. map_oc (\<lambda>ds. st[t := \<lparr>x_fld = x, dx_fld = ds\<rparr>])
        (tree_gradient N st e N))"
proof (cases "expr_val st e")
  case (Returns x)
  have set: "ValExpr_set_val st t x = Returns (st[t := \<lparr>x_fld = x, dx_fld = dx_fld (st ! t)\<rparr>])"
    using t by (simp add: ValExpr_set_val_def deref_def AD_set_val_def AD_update_x)
  have loop: "for_oc N (\<lambda>i s. bind_oc (expr_dx N s e i) (\<lambda>d. ValExpr_set_dx N s t i d))
        (st[t := \<lparr>x_fld = x, dx_fld = dx_fld (st ! t)\<rparr>]) =
     map_oc (\<lambda>ds. st[t := \<lparr>x_fld = x, dx_fld = ds\<rparr>]) (tree_gradient N st e N)"
    using assign_loop [OF t fresh, of "dx_fld (st ! t)" N N x] wf
    by (simp add: wf_AD_def)
  show ?thesis
    by (simp only: ValExpr_assign_def Returns bind_oc.simps set loop)
qed (simp_all add: ValExpr_assign_def)

section \<open>The claims\<close>

text \<open>
  C1. For an expression built from leaves (dual numbers of dimension \<open>N\<close>) and constants
  with \<open>+\<close>, \<open>-\<close>, \<open>*\<close> and \<open>/\<close>, the lazy nodes give the same \<^verbatim>\<open>val()\<close> and, for every
  \<open>i < N\<close>, the same \<^verbatim>\<open>dx(i)\<close> as the dual number obtained by applying the eager
  operators of \<^verbatim>\<open>AD<N>\<close> in the same order; where one side leaves the real numbers
  (a division by zero), so does the other. diff.h has no eager \<^verbatim>\<open>exp\<close>.
\<close>

theorem lazy_matches_eager:
  assumes "arith_only e" and "leaves_wf N st e" and "i < N"
  shows "expr_val st e = map_oc AD_val (eager_eval N st e) \<and>
         expr_dx N st e i = bind_oc (eager_eval N st e) (\<lambda>r. AD_dx N r i)"
  using assms
proof (induction e)
  case (ConstExpr v)
  then show ?case by (simp add: map_oc_def AD_double_eq AD_val_def AD_dx_def)
next
  case (ValExpr a)
  then show ?case by (simp add: map_oc_def)
next
  case (AddExpr l r)
  then have wf: "\<And>L. eager_eval N st l = Returns L \<Longrightarrow> wf_AD N L"
    "\<And>R. eager_eval N st r = Returns R \<Longrightarrow> wf_AD N R"
    by (auto intro: eager_eval_wf)
  from AddExpr show ?case
    by (cases "eager_eval N st l"; cases "eager_eval N st r")
       (auto simp: map_oc_def add_AD_AD_eq wf AD_val_def AD_dx_def)
next
  case (SubExpr l r)
  then have wf: "\<And>L. eager_eval N st l = Returns L \<Longrightarrow> wf_AD N L"
    "\<And>R. eager_eval N st r = Returns R \<Longrightarrow> wf_AD N R"
    by (auto intro: eager_eval_wf)
  from SubExpr show ?case
    by (cases "eager_eval N st l"; cases "eager_eval N st r")
       (auto simp: map_oc_def sub_AD_AD_eq wf AD_val_def AD_dx_def)
next
  case (MulExpr l r)
  then have wf: "\<And>L. eager_eval N st l = Returns L \<Longrightarrow> wf_AD N L"
    "\<And>R. eager_eval N st r = Returns R \<Longrightarrow> wf_AD N R"
    by (auto intro: eager_eval_wf)
  from MulExpr show ?case
    by (cases "eager_eval N st l"; cases "eager_eval N st r")
       (auto simp: map_oc_def mul_AD_AD_eq wf AD_val_def AD_dx_def)
next
  case (DivExpr l r)
  then have wf: "\<And>L. eager_eval N st l = Returns L \<Longrightarrow> wf_AD N L"
    "\<And>R. eager_eval N st r = Returns R \<Longrightarrow> wf_AD N R"
    by (auto intro: eager_eval_wf)
  from DivExpr show ?case
    by (cases "eager_eval N st l"; cases "eager_eval N st r")
       (auto simp: map_oc_def div_AD_AD_eq wf AD_val_def AD_dx_def div_double_def)
qed simp_all

theorem lazy_matches_eager_witness:
  "arith_only (DivExpr (MulExpr (ValExpr 0) (ValExpr 1)) (SubExpr (ValExpr 1) (ConstExpr 1))) \<and>
   leaves_wf 2 [\<lparr>x_fld = 2, dx_fld = [1, 0]\<rparr>, \<lparr>x_fld = 3, dx_fld = [0, 1]\<rparr>]
     (DivExpr (MulExpr (ValExpr 0) (ValExpr 1)) (SubExpr (ValExpr 1) (ConstExpr 1))) \<and>
   (1::nat) < 2 \<and>
   expr_val [\<lparr>x_fld = 2, dx_fld = [1, 0]\<rparr>, \<lparr>x_fld = 3, dx_fld = [0, 1]\<rparr>]
     (DivExpr (MulExpr (ValExpr 0) (ValExpr 1)) (SubExpr (ValExpr 1) (ConstExpr 1))) = Returns 3 \<and>
   map_oc AD_val (eager_eval 2 [\<lparr>x_fld = 2, dx_fld = [1, 0]\<rparr>, \<lparr>x_fld = 3, dx_fld = [0, 1]\<rparr>]
     (DivExpr (MulExpr (ValExpr 0) (ValExpr 1)) (SubExpr (ValExpr 1) (ConstExpr 1)))) = Returns 3 \<and>
   expr_dx 2 [\<lparr>x_fld = 2, dx_fld = [1, 0]\<rparr>, \<lparr>x_fld = 3, dx_fld = [0, 1]\<rparr>]
     (DivExpr (MulExpr (ValExpr 0) (ValExpr 1)) (SubExpr (ValExpr 1) (ConstExpr 1))) 1 =
       Returns (- 1 / 2) \<and>
   bind_oc (eager_eval 2 [\<lparr>x_fld = 2, dx_fld = [1, 0]\<rparr>, \<lparr>x_fld = 3, dx_fld = [0, 1]\<rparr>]
     (DivExpr (MulExpr (ValExpr 0) (ValExpr 1)) (SubExpr (ValExpr 1) (ConstExpr 1))))
     (\<lambda>r. AD_dx 2 r 1) = Returns (- 1 / 2)"
proof -
  let ?st = "[\<lparr>x_fld = 2, dx_fld = [1, 0]\<rparr>, \<lparr>x_fld = 3, dx_fld = [0, 1]\<rparr>]"
  let ?e = "DivExpr (MulExpr (ValExpr 0) (ValExpr 1)) (SubExpr (ValExpr 1) (ConstExpr 1))"
  have a: "arith_only ?e" by simp
  have w: "leaves_wf 2 ?st ?e" by (simp add: wf_AD_def)
  have i: "(1::nat) < 2" by simp
  have v: "expr_val ?st ?e = Returns 3"
    by (simp add: deref_def AD_val_def div_double_def)
  have d: "expr_dx 2 ?st ?e 1 = Returns (- 1 / 2)"
    by (simp add: deref_def AD_val_def AD_dx_def div_double_def)
  note eq = lazy_matches_eager [OF a w i]
  have ev: "map_oc AD_val (eager_eval 2 ?st ?e) = Returns 3"
    by (rule trans [OF eq [THEN conjunct1, symmetric] v])
  have ed: "bind_oc (eager_eval 2 ?st ?e) (\<lambda>r. AD_dx 2 r 1) = Returns (- 1 / 2)"
    by (rule trans [OF eq [THEN conjunct2, symmetric] d])
  from a w i v ev d ed show ?thesis by blast
qed

text \<open>
  C2. The claim: \<^verbatim>\<open>a *= b\<close> leaves in \<open>a\<close> the value \<open>a\<cdot>b\<close> and the derivatives
  \<open>da(i)\<cdot>b + a\<cdot>db(i)\<close> over the values before the assignment, and returns the receiver.
  The code at \<open>a = (2, [1, 0])\<close>, \<open>b = (3, [0, 1])\<close>: the loop reads the value already
  multiplied, so the second derivative is \<open>0\<cdot>3 + 6\<cdot>1 = 6\<close> where the product rule and
  \<^verbatim>\<open>operator*(AD, AD)\<close> give \<open>2\<close>; and no \<^verbatim>\<open>return\<close> statement is reached.
\<close>

theorem mul_assign_at_failing_input:
  "AD_mul_assign 2 \<lparr>x_fld = 2, dx_fld = [1, 0]\<rparr> \<lparr>x_fld = 3, dx_fld = [0, 1]\<rparr> =
     (\<lparr>x_fld = 6, dx_fld = [3, 6]\<rparr>, None) \<and>
   mul_AD_AD 2 \<lparr>x_fld = 2, dx_fld = [1, 0]\<rparr> \<lparr>x_fld = 3, dx_fld = [0, 1]\<rparr> =
     \<lparr>x_fld = 6, dx_fld = [3, 2]\<rparr>"
  by (simp add: AD_mul_assign_eq mul_AD_AD_eq wf_AD_def numeral_2_eq_2)

text \<open>
  C3. The claim: for \<open>b \<noteq> 0\<close>, \<^verbatim>\<open>a /= b\<close> leaves in \<open>a\<close> the value \<open>a/b\<close> and the
  derivatives \<open>(da(i)\<cdot>b - a\<cdot>db(i))/b\<^sup>2\<close> over the values before the assignment, and returns
  the receiver. The code at \<open>a = (6, [1, 0])\<close>, \<open>b = (2, [0, 1])\<close>: the loop reads the value
  already divided, so the second derivative is \<open>(0\<cdot>2 - 3\<cdot>1)/4 = -3/4\<close> where the quotient
  rule and \<^verbatim>\<open>operator/(AD, AD)\<close> give \<open>-3/2\<close>; and no \<^verbatim>\<open>return\<close> statement is reached.
\<close>

theorem div_assign_at_failing_input:
  "AD_div_assign 2 \<lparr>x_fld = 6, dx_fld = [1, 0]\<rparr> \<lparr>x_fld = 2, dx_fld = [0, 1]\<rparr> =
     Returns (\<lparr>x_fld = 3, dx_fld = [1 / 2, - 3 / 4]\<rparr>, None) \<and>
   div_AD_AD 2 \<lparr>x_fld = 6, dx_fld = [1, 0]\<rparr> \<lparr>x_fld = 2, dx_fld = [0, 1]\<rparr> =
     Returns \<lparr>x_fld = 3, dx_fld = [1 / 2, - 3 / 2]\<rparr>"
  by (simp add: AD_div_assign_eq div_AD_AD_eq wf_AD_def numeral_2_eq_2)

text \<open>
  C4, as the code has it. \<^verbatim>\<open>diff(i)\<close> and \<^verbatim>\<open>dx(i)\<close> never report an error: they check
  nothing. With an index in \<open>[0, N)\<close> they return; with an index outside \<open>[0, N)\<close>, and
  only then, the array access is out of bounds, which is undefined behaviour.
\<close>

theorem index_is_not_checked:
  "\<not> reports_error (AD_diff N a i) \<and> \<not> reports_error (AD_dx N a i) \<and>
   (\<exists>a'. AD_diff N a i = Returns a') = (i < N) \<and> (AD_diff N a i = Undefined) = (N \<le> i) \<and>
   (\<exists>d. AD_dx N a i = Returns d) = (i < N) \<and> (AD_dx N a i = Undefined) = (N \<le> i)"
  by (auto simp add: AD_diff_def AD_dx_def Let_def)

text \<open>C4 as stated fails: with \<open>N = 3\<close> and the index \<open>3\<close>, neither call reports an
  error.\<close>

theorem index_out_of_range_not_reported:
  "\<not> reports_error (AD_diff 3 (AD_double 3 1) 3) \<and>
   \<not> reports_error (AD_dx 3 (AD_double 3 1) 3) \<and>
   AD_diff 3 (AD_double 3 1) 3 = Undefined \<and> AD_dx 3 (AD_double 3 1) 3 = Undefined"
  by (simp add: AD_diff_def AD_dx_def Let_def)



text \<open>The base \<open>10\<^sup>2\<^sup>0\<^sup>0\<close> with the constant exponent \<open>2\<close>: the power is out of range.\<close>

lemma pow_dx_power_out_of_range:
  "expr_dx 1 [\<lparr>x_fld = 10 ^ 200, dx_fld = [1]\<rparr>] (PowExpr (ValExpr 0) (ConstExpr 2)) 0 = NonReal"
  by (simp add: deref_def AD_val_def AD_dx_def std_log_def std_pow_def finite_result_def
      overflows_def)


text \<open>
  C6, as the code has it. For a tree whose leaves are live objects of dimension \<open>N\<close> and a
  target of dimension \<open>N\<close> that is not a leaf of the tree, \<^verbatim>\<open>assign\<close> returns exactly when
  \<^verbatim>\<open>val()\<close> and every \<^verbatim>\<open>dx(i)\<close>, \<open>i < N\<close>, of the tree have real values, and it then leaves
  these in the target and changes no other object. Constructing a \<^verbatim>\<open>ValExpr\<close> from the
  tree does the same with a new object, which is never a leaf of the tree. The loop
  bound \<^verbatim>\<open>degree\<close> is taken to be \<open>N\<close>.
\<close>

theorem assign_materialises:
  assumes "leaves_wf N st e" and "t < length st" and "wf_AD N (st ! t)" and "t \<notin> refs e"
  shows "(ValExpr_assign N N st t e = Returns st') =
           (\<exists>v. st' = st[t := v] \<and> wf_AD N v \<and> expr_val st e = Returns (AD_val v) \<and>
                (\<forall>i<N. expr_dx N st e i = Returns (dx_fld v ! i))) \<and>
         (ValExpr_construct N N st e = Returns st'') =
           (\<exists>v. st'' = st @ [v] \<and> wf_AD N v \<and> expr_val st e = Returns (AD_val v) \<and>
                (\<forall>i<N. expr_dx N st e i = Returns (dx_fld v ! i)))"
proof -
  have gen: "(bind_oc (expr_val s e) (\<lambda>x. map_oc (\<lambda>ds. f \<lparr>x_fld = x, dx_fld = ds\<rparr>)
        (tree_gradient N s e N)) = Returns s') =
      (\<exists>v. s' = f v \<and> wf_AD N v \<and> expr_val s e = Returns (AD_val v) \<and>
                (\<forall>i<N. expr_dx N s e i = Returns (dx_fld v ! i)))"
    (is "?L = ?R") for s s' and f :: "AD \<Rightarrow> store"
  proof
    assume ?L
    then obtain x ds where x: "expr_val s e = Returns x"
      and ds: "tree_gradient N s e N = Returns ds" and s': "s' = f \<lparr>x_fld = x, dx_fld = ds\<rparr>"
      by (cases "expr_val s e"; cases "tree_gradient N s e N") (auto simp: map_oc_def)
    from ds have "length ds = N \<and> (\<forall>i<N. expr_dx N s e i = Returns (ds ! i))"
      by (simp add: tree_gradient_iff)
    with x s' show ?R
      by (intro exI [of _ "\<lparr>x_fld = x, dx_fld = ds\<rparr>"]) (simp add: wf_AD_def AD_val_def)
  next
    assume ?R
    then obtain v where v: "s' = f v" "wf_AD N v" "expr_val s e = Returns (AD_val v)"
      "\<forall>i<N. expr_dx N s e i = Returns (dx_fld v ! i)" by blast
    then have "tree_gradient N s e N = Returns (dx_fld v)"
      by (simp add: tree_gradient_iff wf_AD_def)
    with v show ?L by (simp add: map_oc_def AD_val_def AD_eta)
  qed
  have A: "(ValExpr_assign N N st t e = Returns st') =
           (\<exists>v. st' = st[t := v] \<and> wf_AD N v \<and> expr_val st e = Returns (AD_val v) \<and>
                (\<forall>i<N. expr_dx N st e i = Returns (dx_fld v ! i)))"
    using assms gen [of st "\<lambda>v. st[t := v]" st'] by (simp add: assign_eq)
  let ?s = "st @ [AD_default N]"
  have fresh: "length st \<notin> refs e"
    using leaves_wf_refs [OF assms(1), of "length st"] by auto
  have "ValExpr_construct N N st e =
     bind_oc (expr_val ?s e) (\<lambda>x. map_oc (\<lambda>ds. ?s[length st := \<lparr>x_fld = x, dx_fld = ds\<rparr>])
        (tree_gradient N ?s e N))"
    unfolding ValExpr_construct_def
    by (rule assign_eq) (simp_all add: fresh AD_default_eq wf_AD_def)
  then have B: "(ValExpr_construct N N st e = Returns st'') =
           (\<exists>v. st'' = st @ [v] \<and> wf_AD N v \<and> expr_val st e = Returns (AD_val v) \<and>
                (\<forall>i<N. expr_dx N st e i = Returns (dx_fld v ! i)))"
    using gen [of ?s "\<lambda>v. st @ [v]" st''] assms(1)
    by (simp add: expr_val_append [where N = N] expr_dx_append)
  from A B show ?thesis by (rule conjI)
qed

theorem assign_materialises_witness:
  "leaves_wf 2 [\<lparr>x_fld = 2, dx_fld = [1, 0]\<rparr>, \<lparr>x_fld = 3, dx_fld = [0, 1]\<rparr>, \<lparr>x_fld = 9, dx_fld = [8, 7]\<rparr>] (MulExpr (ValExpr 0) (ValExpr 1)) \<and>
   2 < length [\<lparr>x_fld = 2, dx_fld = [1, 0]\<rparr>, \<lparr>x_fld = 3, dx_fld = [0, 1]\<rparr>, \<lparr>x_fld = 9, dx_fld = [8, 7]\<rparr>] \<and>
   wf_AD 2 ([\<lparr>x_fld = 2, dx_fld = [1, 0]\<rparr>, \<lparr>x_fld = 3, dx_fld = [0, 1]\<rparr>, \<lparr>x_fld = 9, dx_fld = [8, 7]\<rparr>] ! 2) \<and>
   2 \<notin> refs (MulExpr (ValExpr 0) (ValExpr 1)) \<and>
   ValExpr_assign 2 2 [\<lparr>x_fld = 2, dx_fld = [1, 0]\<rparr>, \<lparr>x_fld = 3, dx_fld = [0, 1]\<rparr>, \<lparr>x_fld = 9, dx_fld = [8, 7]\<rparr>] 2 (MulExpr (ValExpr 0) (ValExpr 1)) = Returns [\<lparr>x_fld = 2, dx_fld = [1, 0]\<rparr>, \<lparr>x_fld = 3, dx_fld = [0, 1]\<rparr>, \<lparr>x_fld = 6, dx_fld = [3, 2]\<rparr>] \<and>
   (\<exists>v. [\<lparr>x_fld = 2, dx_fld = [1, 0]\<rparr>, \<lparr>x_fld = 3, dx_fld = [0, 1]\<rparr>, \<lparr>x_fld = 6, dx_fld = [3, 2]\<rparr>] = [\<lparr>x_fld = 2, dx_fld = [1, 0]\<rparr>, \<lparr>x_fld = 3, dx_fld = [0, 1]\<rparr>, \<lparr>x_fld = 9, dx_fld = [8, 7]\<rparr>][2 := v] \<and> wf_AD 2 v \<and>
        expr_val [\<lparr>x_fld = 2, dx_fld = [1, 0]\<rparr>, \<lparr>x_fld = 3, dx_fld = [0, 1]\<rparr>, \<lparr>x_fld = 9, dx_fld = [8, 7]\<rparr>] (MulExpr (ValExpr 0) (ValExpr 1)) = Returns (AD_val v) \<and>
        (\<forall>i<2. expr_dx 2 [\<lparr>x_fld = 2, dx_fld = [1, 0]\<rparr>, \<lparr>x_fld = 3, dx_fld = [0, 1]\<rparr>, \<lparr>x_fld = 9, dx_fld = [8, 7]\<rparr>] (MulExpr (ValExpr 0) (ValExpr 1)) i = Returns (dx_fld v ! i))) \<and>
   ValExpr_construct 2 2 [\<lparr>x_fld = 2, dx_fld = [1, 0]\<rparr>, \<lparr>x_fld = 3, dx_fld = [0, 1]\<rparr>, \<lparr>x_fld = 9, dx_fld = [8, 7]\<rparr>] (MulExpr (ValExpr 0) (ValExpr 1)) = Returns [\<lparr>x_fld = 2, dx_fld = [1, 0]\<rparr>, \<lparr>x_fld = 3, dx_fld = [0, 1]\<rparr>, \<lparr>x_fld = 9, dx_fld = [8, 7]\<rparr>, \<lparr>x_fld = 6, dx_fld = [3, 2]\<rparr>] \<and>
   (\<exists>v. [\<lparr>x_fld = 2, dx_fld = [1, 0]\<rparr>, \<lparr>x_fld = 3, dx_fld = [0, 1]\<rparr>, \<lparr>x_fld = 9, dx_fld = [8, 7]\<rparr>, \<lparr>x_fld = 6, dx_fld = [3, 2]\<rparr>] = [\<lparr>x_fld = 2, dx_fld = [1, 0]\<rparr>, \<lparr>x_fld = 3, dx_fld = [0, 1]\<rparr>, \<lparr>x_fld = 9, dx_fld = [8, 7]\<rparr>] @ [v] \<and> wf_AD 2 v \<and>
        expr_val [\<lparr>x_fld = 2, dx_fld = [1, 0]\<rparr>, \<lparr>x_fld = 3, dx_fld = [0, 1]\<rparr>, \<lparr>x_fld = 9, dx_fld = [8, 7]\<rparr>] (MulExpr (ValExpr 0) (ValExpr 1)) = Returns (AD_val v) \<and>
        (\<forall>i<2. expr_dx 2 [\<lparr>x_fld = 2, dx_fld = [1, 0]\<rparr>, \<lparr>x_fld = 3, dx_fld = [0, 1]\<rparr>, \<lparr>x_fld = 9, dx_fld = [8, 7]\<rparr>] (MulExpr (ValExpr 0) (ValExpr 1)) i = Returns (dx_fld v ! i)))"
proof -
  let ?st = "[\<lparr>x_fld = 2, dx_fld = [1, 0]\<rparr>, \<lparr>x_fld = 3, dx_fld = [0, 1]\<rparr>, \<lparr>x_fld = 9, dx_fld = [8, 7]\<rparr>]"
  let ?e = "MulExpr (ValExpr 0) (ValExpr 1)"
  have h1: "leaves_wf 2 ?st ?e" by (simp add: wf_AD_def)
  have h2: "2 < length ?st" by simp
  have h3: "wf_AD 2 (?st ! 2)" by (simp add: wf_AD_def)
  have h4: "2 \<notin> refs ?e" by simp
  have a: "ValExpr_assign 2 2 ?st 2 ?e = Returns [\<lparr>x_fld = 2, dx_fld = [1, 0]\<rparr>, \<lparr>x_fld = 3, dx_fld = [0, 1]\<rparr>, \<lparr>x_fld = 6, dx_fld = [3, 2]\<rparr>]"
    by (simp add: ValExpr_assign_def ValExpr_set_val_def ValExpr_set_dx_def deref_def
        AD_set_val_def AD_set_dx_def AD_val_def AD_dx_def numeral_2_eq_2)
  have c: "ValExpr_construct 2 2 ?st ?e = Returns [\<lparr>x_fld = 2, dx_fld = [1, 0]\<rparr>, \<lparr>x_fld = 3, dx_fld = [0, 1]\<rparr>, \<lparr>x_fld = 9, dx_fld = [8, 7]\<rparr>, \<lparr>x_fld = 6, dx_fld = [3, 2]\<rparr>]"
    by (simp add: ValExpr_construct_def AD_default_eq ValExpr_assign_def ValExpr_set_val_def
        ValExpr_set_dx_def deref_def AD_set_val_def AD_set_dx_def AD_val_def AD_dx_def
        numeral_2_eq_2)
  note m = assign_materialises [OF h1 h2 h3 h4, of "[\<lparr>x_fld = 2, dx_fld = [1, 0]\<rparr>, \<lparr>x_fld = 3, dx_fld = [0, 1]\<rparr>, \<lparr>x_fld = 6, dx_fld = [3, 2]\<rparr>]" "[\<lparr>x_fld = 2, dx_fld = [1, 0]\<rparr>, \<lparr>x_fld = 3, dx_fld = [0, 1]\<rparr>, \<lparr>x_fld = 9, dx_fld = [8, 7]\<rparr>, \<lparr>x_fld = 6, dx_fld = [3, 2]\<rparr>]"]
  from m a have ra: "\<exists>v. [\<lparr>x_fld = 2, dx_fld = [1, 0]\<rparr>, \<lparr>x_fld = 3, dx_fld = [0, 1]\<rparr>, \<lparr>x_fld = 6, dx_fld = [3, 2]\<rparr>] = ?st[2 := v] \<and> wf_AD 2 v \<and>
        expr_val ?st ?e = Returns (AD_val v) \<and>
        (\<forall>i<2. expr_dx 2 ?st ?e i = Returns (dx_fld v ! i))" by blast
  from m c have rc: "\<exists>v. [\<lparr>x_fld = 2, dx_fld = [1, 0]\<rparr>, \<lparr>x_fld = 3, dx_fld = [0, 1]\<rparr>, \<lparr>x_fld = 9, dx_fld = [8, 7]\<rparr>, \<lparr>x_fld = 6, dx_fld = [3, 2]\<rparr>] = ?st @ [v] \<and> wf_AD 2 v \<and>
        expr_val ?st ?e = Returns (AD_val v) \<and>
        (\<forall>i<2. expr_dx 2 ?st ?e i = Returns (dx_fld v ! i))" by blast
  from h1 h2 h3 h4 a ra c rc show ?thesis by blast
qed

text \<open>C6 as stated fails when the target is a leaf of the tree: \<^verbatim>\<open>x = x * y\<close> with
  \<open>x = (2, [1, 0])\<close> and \<open>y = (3, [0, 1])\<close> stores the value first and then evaluates the
  derivatives of the tree with the new value of \<open>x\<close>. The object holds \<open>(6, [3, 6])\<close>; the
  tree had \<^verbatim>\<open>dx(1)\<close> equal to \<open>2\<close> before the assignment and has the value \<open>18\<close> after it.\<close>

theorem assign_to_a_leaf_of_the_tree:
  "ValExpr_assign 2 2 [\<lparr>x_fld = 2, dx_fld = [1, 0]\<rparr>, \<lparr>x_fld = 3, dx_fld = [0, 1]\<rparr>] 0
      (MulExpr (ValExpr 0) (ValExpr 1)) =
     Returns [\<lparr>x_fld = 6, dx_fld = [3, 6]\<rparr>, \<lparr>x_fld = 3, dx_fld = [0, 1]\<rparr>] \<and>
   expr_dx 2 [\<lparr>x_fld = 2, dx_fld = [1, 0]\<rparr>, \<lparr>x_fld = 3, dx_fld = [0, 1]\<rparr>]
      (MulExpr (ValExpr 0) (ValExpr 1)) 1 = Returns 2 \<and>
   expr_val [\<lparr>x_fld = 6, dx_fld = [3, 6]\<rparr>, \<lparr>x_fld = 3, dx_fld = [0, 1]\<rparr>]
      (MulExpr (ValExpr 0) (ValExpr 1)) = Returns 18"
  by (simp add: ValExpr_assign_def ValExpr_set_val_def ValExpr_set_dx_def deref_def
      AD_set_val_def AD_set_dx_def AD_val_def AD_dx_def numeral_2_eq_2)

text \<open>
  C7. For a dual number of dimension \<open>N\<close> with any gradient and an index \<open>i < N\<close>,
  \<^verbatim>\<open>AD::diff(i)\<close> and \<^verbatim>\<open>ValExpr::diff(i)\<close> (with \<^verbatim>\<open>degree\<close> equal to \<open>N\<close>) return, keep the
  value, and leave the derivative \<open>1\<close> at \<open>i\<close> and \<open>0\<close> at every other index \<open>j < N\<close>.
\<close>

theorem diff_resets_gradient:
  assumes "wf_AD N a" and "i < N" and "j < N"
  shows "\<exists>a'. AD_diff N a i = Returns a' \<and> ValExpr_diff N N a i = Returns a' \<and>
           wf_AD N a' \<and> AD_val a' = AD_val a \<and>
           AD_dx N a' j = Returns (if j = i then 1 else 0)"
proof -
  let ?a' = "a\<lparr>dx_fld := (replicate N 0)[i := 1]\<rparr>"
  have 1: "AD_diff N a i = Returns ?a'"
    using assms by (simp add: AD_diff_def AD_zero_eq)
  have "for_oc N (\<lambda>i v. AD_set_dx N v i 0) a = Returns (a\<lparr>dx_fld := replicate N 0\<rparr>)"
    using assms for_oc_set_dx_zero [of N N a] by (simp add: wf_AD_def)
  then have 2: "ValExpr_diff N N a i = Returns ?a'"
    using assms by (simp add: ValExpr_diff_def AD_set_dx_def)
  have 3: "AD_dx N ?a' j = Returns (if j = i then 1 else 0)"
    using assms by (simp add: AD_dx_def nth_list_update)
  show ?thesis using 1 2 3 assms by (simp add: wf_AD_def AD_val_def)
qed

theorem diff_resets_gradient_witness:
  "wf_AD 3 \<lparr>x_fld = 5, dx_fld = [7, 8, 9]\<rparr> \<and> (1::nat) < 3 \<and> (2::nat) < 3 \<and>
   (\<exists>a'. AD_diff 3 \<lparr>x_fld = 5, dx_fld = [7, 8, 9]\<rparr> 1 = Returns a' \<and>
         ValExpr_diff 3 3 \<lparr>x_fld = 5, dx_fld = [7, 8, 9]\<rparr> 1 = Returns a' \<and>
         wf_AD 3 a' \<and> AD_val a' = AD_val \<lparr>x_fld = 5, dx_fld = [7, 8, 9]\<rparr> \<and>
         AD_dx 3 a' 2 = Returns (if (2::nat) = 1 then 1 else 0))"
  using diff_resets_gradient [of 3 "\<lparr>x_fld = 5, dx_fld = [7, 8, 9]\<rparr>" 1 2]
  by (simp add: wf_AD_def)

text \<open>
  C8, as the code has it. For a scalar \<open>s\<close> and a dual number \<open>a\<close> of dimension \<open>N\<close>, the
  operators \<open>s + a\<close>, \<open>a + s\<close>, \<open>s - a\<close>, \<open>a - s\<close>, \<open>s * a\<close>, \<open>a * s\<close> and \<open>s / a\<close> give the
  dual number that the operator on two dual numbers gives once \<open>s\<close> is promoted by
  \<^verbatim>\<open>AD(double)\<close>: the same value and the same derivatives. The operator \<open>a / s\<close> with
  \<open>s \<noteq> 0\<close> gives the value \<open>a/s\<close>, which is the value of the promoted form, and the
  derivatives \<open>da(i)/s\<close>; the promoted form computes \<open>(da(i)\<cdot>s - a\<cdot>0)/(s\<cdot>s)\<close> instead.
\<close>

theorem mixed_operands_agree:
  assumes "wf_AD N a"
  shows "add_double_AD N s a = add_AD_AD N (AD_double N s) a \<and>
         add_AD_double N a s = add_AD_AD N a (AD_double N s) \<and>
         sub_double_AD N s a = sub_AD_AD N (AD_double N s) a \<and>
         sub_AD_double N a s = sub_AD_AD N a (AD_double N s) \<and>
         mul_double_AD N s a = mul_AD_AD N (AD_double N s) a \<and>
         mul_AD_double N a s = mul_AD_AD N a (AD_double N s) \<and>
         div_double_AD N s a = div_AD_AD N (AD_double N s) a \<and>
         div_AD_double N a s =
           (if s = 0 then NonReal
            else Returns \<lparr>x_fld = x_fld a / s, dx_fld = map (\<lambda>i. dx_fld a ! i / s) [0..<N]\<rparr>) \<and>
         map_oc AD_val (div_AD_double N a s) = map_oc AD_val (div_AD_AD N a (AD_double N s))"
proof -
  have p: "wf_AD N (AD_double N s)" by (rule wf_AD_double)
  have x: "x_fld (AD_double N s) = s" and d: "i < N \<Longrightarrow> dx_fld (AD_double N s) ! i = 0" for i
    by (simp_all add: AD_double_eq)
  show ?thesis
    using assms
    by (simp add: add_double_AD_eq add_AD_double_eq sub_double_AD_eq sub_AD_double_eq
        mul_double_AD_eq mul_AD_double_eq div_double_AD_eq div_AD_double_eq
        add_AD_AD_eq sub_AD_AD_eq mul_AD_AD_eq div_AD_AD_eq p x d map_oc_def AD_val_def)
qed

theorem mixed_operands_agree_witness:
  "wf_AD 2 \<lparr>x_fld = 3, dx_fld = [1, 0]\<rparr> \<and>
   add_double_AD 2 5 \<lparr>x_fld = 3, dx_fld = [1, 0]\<rparr> = add_AD_AD 2 (AD_double 2 5) \<lparr>x_fld = 3, dx_fld = [1, 0]\<rparr> \<and>
   add_AD_double 2 \<lparr>x_fld = 3, dx_fld = [1, 0]\<rparr> 5 = add_AD_AD 2 \<lparr>x_fld = 3, dx_fld = [1, 0]\<rparr> (AD_double 2 5) \<and>
   sub_double_AD 2 5 \<lparr>x_fld = 3, dx_fld = [1, 0]\<rparr> = sub_AD_AD 2 (AD_double 2 5) \<lparr>x_fld = 3, dx_fld = [1, 0]\<rparr> \<and>
   sub_AD_double 2 \<lparr>x_fld = 3, dx_fld = [1, 0]\<rparr> 5 = sub_AD_AD 2 \<lparr>x_fld = 3, dx_fld = [1, 0]\<rparr> (AD_double 2 5) \<and>
   mul_double_AD 2 5 \<lparr>x_fld = 3, dx_fld = [1, 0]\<rparr> = mul_AD_AD 2 (AD_double 2 5) \<lparr>x_fld = 3, dx_fld = [1, 0]\<rparr> \<and>
   mul_AD_double 2 \<lparr>x_fld = 3, dx_fld = [1, 0]\<rparr> 5 = mul_AD_AD 2 \<lparr>x_fld = 3, dx_fld = [1, 0]\<rparr> (AD_double 2 5) \<and>
   div_double_AD 2 5 \<lparr>x_fld = 3, dx_fld = [1, 0]\<rparr> = div_AD_AD 2 (AD_double 2 5) \<lparr>x_fld = 3, dx_fld = [1, 0]\<rparr> \<and>
   (\<exists>r. div_double_AD 2 5 \<lparr>x_fld = 3, dx_fld = [1, 0]\<rparr> = Returns r) \<and>
   div_AD_double 2 \<lparr>x_fld = 3, dx_fld = [1, 0]\<rparr> 5 = Returns \<lparr>x_fld = 3 / 5, dx_fld = [1 / 5, 0]\<rparr> \<and>
   map_oc AD_val (div_AD_double 2 \<lparr>x_fld = 3, dx_fld = [1, 0]\<rparr> 5) = map_oc AD_val (div_AD_AD 2 \<lparr>x_fld = 3, dx_fld = [1, 0]\<rparr> (AD_double 2 5))"
proof -
  have w: "wf_AD 2 \<lparr>x_fld = 3, dx_fld = [1, 0]\<rparr>" by (simp add: wf_AD_def)
  note m = mixed_operands_agree [OF w, of 5]
  have e: "\<exists>r. div_double_AD 2 5 \<lparr>x_fld = 3, dx_fld = [1, 0]\<rparr> = Returns r"
    using w by (simp add: div_double_AD_eq)
  have "div_AD_double 2 \<lparr>x_fld = 3, dx_fld = [1, 0]\<rparr> 5 =
     (if (5::real) = 0 then NonReal
      else Returns \<lparr>x_fld = x_fld \<lparr>x_fld = 3, dx_fld = [1, 0]\<rparr> / 5, dx_fld = map (\<lambda>i. dx_fld \<lparr>x_fld = 3, dx_fld = [1, 0]\<rparr> ! i / 5) [0..<2]\<rparr>)"
    using m by blast
  then have q: "div_AD_double 2 \<lparr>x_fld = 3, dx_fld = [1, 0]\<rparr> 5 = Returns \<lparr>x_fld = 3 / 5, dx_fld = [1 / 5, 0]\<rparr>"
    by (simp add: numeral_2_eq_2)
  from m w e q show ?thesis by blast
qed

text \<open>C8 as stated fails for \<open>a / s\<close> in the arithmetic of a \<^verbatim>\<open>double\<close>: with \<open>a = (1, [1])\<close>
  and \<open>s = 2\<^sup>5\<^sup>1\<^sup>2\<close> the operator with a scalar divisor gives the derivative \<open>1/2\<^sup>5\<^sup>1\<^sup>2\<close>, and
  the operator on two dual numbers, applied to the promoted \<open>s\<close>, divides \<open>2\<^sup>5\<^sup>1\<^sup>2\<close> by the
  product \<open>s\<cdot>s\<close>, which is beyond the range and hence an infinity, and gives \<open>0\<close>.\<close>

theorem scalar_divisor_differs_from_promotion:
  "x_div_AD_double 1 \<lparr>xx_fld = Fin 1, xdx_fld = [Fin 1]\<rparr> (Fin (2 ^ 512)) =
     \<lparr>xx_fld = Fin (1 / 2 ^ 512), xdx_fld = [Fin (1 / 2 ^ 512)]\<rparr> \<and>
   x_div_AD_AD 1 \<lparr>xx_fld = Fin 1, xdx_fld = [Fin 1]\<rparr> (xAD_double 1 (Fin (2 ^ 512))) =
     \<lparr>xx_fld = Fin (1 / 2 ^ 512), xdx_fld = [Fin 0]\<rparr> \<and>
   x_div_AD_double 1 \<lparr>xx_fld = Fin 1, xdx_fld = [Fin 1]\<rparr> (Fin (2 ^ 512)) \<noteq>
     x_div_AD_AD 1 \<lparr>xx_fld = Fin 1, xdx_fld = [Fin 1]\<rparr> (xAD_double 1 (Fin (2 ^ 512)))"
  by (simp add: x_div_AD_double_def x_div_AD_AD_def xAD_double_def xAD_default_def xAD_zero_def
      to_double_def overflows_def)

text \<open>
  C9. Assigning a scalar \<open>s\<close> to a dual number of dimension \<open>N\<close> sets the value to \<open>s\<close>
  and every derivative to \<open>0\<close>, whatever the gradient was (a seeded variable loses its
  seeding), and returns the receiver.
\<close>

theorem assign_double_resets:
  assumes "wf_AD N a" and "j < N"
  shows "AD_assign_double N a s = return_this \<lparr>x_fld = s, dx_fld = replicate N 0\<rparr> \<and>
         AD_val (fst (AD_assign_double N a s)) = s \<and>
         AD_dx N (fst (AD_assign_double N a s)) j = Returns 0"
  using assms
  by (simp add: AD_assign_double_def AD_zero_eq wf_AD_def return_this_def AD_val_def AD_dx_def)

theorem assign_double_resets_witness:
  "AD_diff 2 (AD_double 2 5) 0 = Returns \<lparr>x_fld = 5, dx_fld = [1, 0]\<rparr> \<and>
   wf_AD 2 \<lparr>x_fld = 5, dx_fld = [1, 0]\<rparr> \<and> (0::nat) < 2 \<and>
   AD_assign_double 2 \<lparr>x_fld = 5, dx_fld = [1, 0]\<rparr> 7 =
     return_this \<lparr>x_fld = 7, dx_fld = replicate 2 0\<rparr> \<and>
   AD_val (fst (AD_assign_double 2 \<lparr>x_fld = 5, dx_fld = [1, 0]\<rparr> 7)) = 7 \<and>
   AD_dx 2 (fst (AD_assign_double 2 \<lparr>x_fld = 5, dx_fld = [1, 0]\<rparr> 7)) 0 = Returns 0"
proof -
  have s: "AD_diff 2 (AD_double 2 5) 0 = Returns \<lparr>x_fld = 5, dx_fld = [1, 0]\<rparr>"
    by (simp add: AD_diff_def AD_double_eq AD_zero_eq wf_AD_def numeral_2_eq_2)
  have w: "wf_AD 2 \<lparr>x_fld = 5, dx_fld = [1, 0]\<rparr>" by (simp add: wf_AD_def)
  have j: "(0::nat) < 2" by simp
  from assign_double_resets [OF w j, of 7] s w j show ?thesis by blast
qed

text \<open>
  C10. \<^verbatim>\<open>a += s\<close> and \<^verbatim>\<open>a -= s\<close> with a scalar \<open>s\<close> add \<open>s\<close> to the value, respectively
  subtract it, and leave the array of derivatives as it was.
\<close>

theorem add_sub_double_keep_gradient:
  "x_fld (fst (AD_add_assign_double a s)) = x_fld a + s \<and>
   dx_fld (fst (AD_add_assign_double a s)) = dx_fld a \<and>
   x_fld (fst (AD_sub_assign_double a s)) = x_fld a - s \<and>
   dx_fld (fst (AD_sub_assign_double a s)) = dx_fld a"
  by (simp add: AD_add_assign_double_def AD_sub_assign_double_def return_this_def)

end
